theory Spec2Isabelle
  imports Main "HOL-Library.Multiset"
begin

section \<open>Records of the hosting platform (go-github)\<close>

text \<open>
  The program reads repositories, pull requests and review comments through the
  go-github structs, whose fields are pointers: a field is absent (\<open>nil\<close>) or present.
  A pointer field is an \<open>option\<close> here, and each \<open>GetX\<close> accessor returns the zero
  value of the field's type when the pointer (or the struct itself) is \<open>nil\<close>.
  Go's \<open>int\<close> and \<open>int64\<close> are \<open>int\<close>: the program only compares and prints them.
  A \<open>Timestamp\<close> is the instant it denotes (a count of time units since the epoch);
  \<open>After\<close> and \<open>Equal\<close> of Go's \<open>time.Time\<close> compare instants.
  A fetched collection is a list of records: the slices the API client decodes hold
  pointers to structs, none of them \<open>nil\<close>, and so do the items built from them.
\<close>

type_synonym Timestamp = int

record User =
  Login :: "string option"

record Repository =
  repo_Name :: "string option"
  repo_Owner :: "User option"
  repo_Description :: "string option"
  repo_Language :: "string option"
  repo_UpdatedAt :: "Timestamp option"
  repo_Private :: "bool option"
  repo_Fork :: "bool option"

record PullRequest =
  pr_Number :: "int option"
  pr_Title :: "string option"
  pr_User :: "User option"
  pr_CreatedAt :: "Timestamp option"
  pr_Draft :: "bool option"
  pr_Merged :: "bool option"
  pr_State :: "string option"

record PullRequestComment =
  c_Body :: "string option"
  c_User :: "User option"
  c_CreatedAt :: "Timestamp option"
  c_UpdatedAt :: "Timestamp option"
  c_Path :: "string option"
  c_Line :: "int option"
  c_StartLine :: "int option"
  c_OriginalLine :: "int option"
  c_OriginalStartLine :: "int option"
  c_InReplyTo :: "int option"
  c_DiffHunk :: "string option"
  c_HTMLURL :: "string option"

definition GetString :: "string option \<Rightarrow> string" where
  "GetString p = (case p of None \<Rightarrow> [] | Some s \<Rightarrow> s)"

definition GetInt :: "int option \<Rightarrow> int" where
  "GetInt p = (case p of None \<Rightarrow> 0 | Some n \<Rightarrow> n)"

definition GetBool :: "bool option \<Rightarrow> bool" where
  "GetBool p = (case p of None \<Rightarrow> False | Some b \<Rightarrow> b)"

text \<open>\<open>GetLogin\<close> is called on the result of \<open>GetOwner\<close> or \<open>GetUser\<close>, which may be \<open>nil\<close>.\<close>

definition GetLogin :: "User option \<Rightarrow> string" where
  "GetLogin u = (case u of None \<Rightarrow> [] | Some v \<Rightarrow> GetString (Login v))"

section \<open>The client: fetch commands and their result messages\<close>

text \<open>
  A fetch command runs off the event loop and delivers one message. The messages of the
  program, with those of the terminal framework that \<open>Update\<close> inspects: an error is its
  text, \<open>None\<close> is Go's \<open>nil\<close> error; \<open>OtherMsg\<close> is any message \<open>Update\<close> has no case for.
\<close>

datatype 'w msg =
    WindowSizeMsg int int
  | KeyMsg string
  | ReposMsg "Repository list" "string option"
  | PRsMsg "PullRequest list" "string option"
  | CommentsMsg "PullRequestComment list" "string option"
  | clearCopyStatusMsg
  | OtherMsg 'w

text \<open>
  \<open>sort.Slice\<close> belongs to Go's standard library and is a parameter of the fetch
  functions. Its documented contract: when the comparison \<open>lt\<close> is a strict weak ordering
  (a transitive ordering whose incomparability is transitive too), the slice is
  permuted so that no element is \<open>lt\<close> an element before it. The sort is not stable.
\<close>

definition strict_weak :: "('a \<Rightarrow> 'a \<Rightarrow> bool) \<Rightarrow> bool" where
  "strict_weak lt =
     ((\<forall>a b. lt a b \<longrightarrow> \<not> lt b a) \<and>
      (\<forall>a b c. lt a b \<longrightarrow> lt b c \<longrightarrow> lt a c) \<and>
      (\<forall>a b c. \<not> lt a b \<longrightarrow> \<not> lt b c \<longrightarrow> \<not> lt a c))"

definition sort_Slice_contract :: "(('a \<Rightarrow> 'a \<Rightarrow> bool) \<Rightarrow> 'a list \<Rightarrow> 'a list) \<Rightarrow> bool" where
  "sort_Slice_contract srt =
     (\<forall>lt xs. strict_weak lt \<longrightarrow>
        mset (srt lt xs) = mset xs \<and> sorted_wrt (\<lambda>a b. \<not> lt b a) (srt lt xs))"

text \<open>
  The insertion sort that \<open>sort.Slice\<close> runs on short slices: element \<open>i\<close> is swapped
  towards the front while \<open>lt\<close> holds of it and its left neighbour. \<open>insertLeft\<close> works on
  the sorted prefix in reverse (nearest neighbour first).
\<close>

fun insertLeft :: "('a \<Rightarrow> 'a \<Rightarrow> bool) \<Rightarrow> 'a \<Rightarrow> 'a list \<Rightarrow> 'a list" where
  "insertLeft lt x [] = [x]"
| "insertLeft lt x (y # ys) = (if lt x y then y # insertLeft lt x ys else x # y # ys)"

fun insertionSortFrom :: "('a \<Rightarrow> 'a \<Rightarrow> bool) \<Rightarrow> 'a list \<Rightarrow> 'a list \<Rightarrow> 'a list" where
  "insertionSortFrom lt pre [] = rev pre"
| "insertionSortFrom lt pre (x # xs) = insertionSortFrom lt (insertLeft lt x pre) xs"

definition insertionSort :: "('a \<Rightarrow> 'a \<Rightarrow> bool) \<Rightarrow> 'a list \<Rightarrow> 'a list" where
  "insertionSort lt xs = insertionSortFrom lt [] xs"

text \<open>The comparison closures handed to \<open>sort.Slice\<close> by \<open>FetchPRs\<close> and \<open>FetchComments\<close>.\<close>

definition prLess :: "PullRequest \<Rightarrow> PullRequest \<Rightarrow> bool" where
  "prLess a b = (GetInt (pr_Number a) > GetInt (pr_Number b))"

definition commentLess :: "PullRequestComment \<Rightarrow> PullRequestComment \<Rightarrow> bool" where
  "commentLess a b =
     (if c_UpdatedAt a = None \<and> c_UpdatedAt b = None then False
      else if c_UpdatedAt a = None then False
      else if c_UpdatedAt b = None then True
      else the (c_UpdatedAt a) > the (c_UpdatedAt b))"

text \<open>
  The network call is a parameter: given the owner's login and the repository's name
  (and the pull request's number) it returns the error text or the collection.
  A timeout is one of its errors.
\<close>

definition FetchPRs ::
  "((PullRequest \<Rightarrow> PullRequest \<Rightarrow> bool) \<Rightarrow> PullRequest list \<Rightarrow> PullRequest list) \<Rightarrow>
   (string \<Rightarrow> string \<Rightarrow> string + PullRequest list) \<Rightarrow> Repository option \<Rightarrow> 'w msg" where
  "FetchPRs sort_Slice api_List repo =
     (case repo of
        None \<Rightarrow> PRsMsg [] (Some ''no repository provided'')
      | Some r \<Rightarrow>
          (case api_List (GetLogin (repo_Owner r)) (GetString (repo_Name r)) of
             Inl e \<Rightarrow> PRsMsg [] (Some e)
           | Inr prs \<Rightarrow> PRsMsg (sort_Slice prLess prs) None))"

definition FetchComments ::
  "((PullRequestComment \<Rightarrow> PullRequestComment \<Rightarrow> bool) \<Rightarrow>
      PullRequestComment list \<Rightarrow> PullRequestComment list) \<Rightarrow>
   (string \<Rightarrow> string \<Rightarrow> int \<Rightarrow> string + PullRequestComment list) \<Rightarrow>
   Repository option \<Rightarrow> PullRequest option \<Rightarrow> 'w msg" where
  "FetchComments sort_Slice api_ListComments repo pr =
     (case (repo, pr) of
        (Some r, Some p) \<Rightarrow>
          (case api_ListComments (GetLogin (repo_Owner r)) (GetString (repo_Name r))
                  (GetInt (pr_Number p)) of
             Inl e \<Rightarrow> CommentsMsg [] (Some e)
           | Inr comments \<Rightarrow> CommentsMsg (sort_Slice commentLess comments) None)
      | _ \<Rightarrow> CommentsMsg [] (Some ''no repository or PR provided''))"

section \<open>Item adapters\<close>

text \<open>
  Go strings are byte sequences, and so are the strings here: \<open>len\<close> and slicing count
  bytes. The separator and the indicator glyphs are written as their UTF-8 bytes.
\<close>

definition bullet :: string where
  "bullet = [CHR 0xE2, CHR 0x80, CHR 0xA2]"

definition glyph_lock :: string where
  "glyph_lock = [CHR 0xF0, CHR 0x9F, CHR 0x94, CHR 0x92]"

definition glyph_fork :: string where
  "glyph_fork = [CHR 0xF0, CHR 0x9F, CHR 0x8D, CHR 0xB4]"

text \<open>\<open>%d\<close> of \<open>fmt.Sprintf\<close>: the decimal digits, with a sign for a negative number.\<close>

fun digits :: "nat \<Rightarrow> string" where
  "digits n = (if n < 10 then [''0123456789'' ! n]
               else digits (n div 10) @ [''0123456789'' ! (n mod 10)])"

declare digits.simps [simp del]

definition itoa :: "int \<Rightarrow> string" where
  "itoa n = (if n < 0 then CHR ''-'' # digits (nat (- n)) else digits (nat n))"

text \<open>\<open>strings.Join\<close>.\<close>

fun Join :: "string list \<Rightarrow> string \<Rightarrow> string" where
  "Join [] sep = []"
| "Join [x] sep = x"
| "Join (x # y # ys) sep = x @ sep @ Join (y # ys) sep"

text \<open>\<open>strings.Split\<close> with a separator of one byte: the empty string gives one empty piece.\<close>

fun Split :: "string \<Rightarrow> char \<Rightarrow> string list" where
  "Split [] sep = [[]]"
| "Split (c # cs) sep =
     (if c = sep then [] # Split cs sep
      else (case Split cs sep of [] \<Rightarrow> [[c]] | l # ls \<Rightarrow> (c # l) # ls))"

subsection \<open>Repositories\<close>

definition RepoItem_FilterValue :: "Repository \<Rightarrow> string" where
  "RepoItem_FilterValue r = GetString (repo_Name r)"

definition RepoItem_Title :: "Repository \<Rightarrow> string" where
  "RepoItem_Title r =
     (let name = GetString (repo_Name r);
          name = (if GetLogin (repo_Owner r) \<noteq> []
                  then GetLogin (repo_Owner r) @ ''/'' @ name else name);
          indicators = (if GetBool (repo_Private r) then [glyph_lock] else []) @
                       (if GetBool (repo_Fork r) then [glyph_fork] else [])
      in if length indicators > 0 then name @ '' '' @ Join indicators '' '' else name)"

text \<open>
  \<open>Format\<close> of Go's \<open>time\<close> package is the parameter \<open>Format\<close>: the text of an instant
  in a layout (it depends on the location the instant carries).
\<close>

definition RepoItem_Description :: "(Timestamp \<Rightarrow> string \<Rightarrow> string) \<Rightarrow> Repository \<Rightarrow> string" where
  "RepoItem_Description Format r =
     (let desc = GetString (repo_Description r);
          desc = (if desc = [] then ''No description'' else desc);
          lang = GetString (repo_Language r);
          updated = (case repo_UpdatedAt r of None \<Rightarrow> [] | Some t \<Rightarrow> Format t ''2006-01-02'')
      in if lang \<noteq> [] \<and> updated \<noteq> []
         then desc @ '' '' @ bullet @ '' '' @ lang @ '' '' @ bullet @ '' Updated '' @ updated
         else if lang \<noteq> [] then desc @ '' '' @ bullet @ '' '' @ lang
         else if updated \<noteq> [] then desc @ '' '' @ bullet @ '' Updated '' @ updated
         else desc)"

subsection \<open>Pull requests\<close>

definition PRItem_FilterValue :: "PullRequest \<Rightarrow> string" where
  "PRItem_FilterValue p = GetString (pr_Title p)"

definition PRItem_Title :: "PullRequest \<Rightarrow> string" where
  "PRItem_Title p = ''#'' @ itoa (GetInt (pr_Number p)) @ '' '' @ GetString (pr_Title p)"

definition PRItem_Description :: "(Timestamp \<Rightarrow> string \<Rightarrow> string) \<Rightarrow> PullRequest \<Rightarrow> string" where
  "PRItem_Description Format p =
     (let author = GetLogin (pr_User p);
          created = (case pr_CreatedAt p of None \<Rightarrow> [] | Some t \<Rightarrow> Format t ''2006-01-02'');
          status = (if GetBool (pr_Draft p) then [''DRAFT''] else []) @
                   (if GetBool (pr_Merged p) then [''MERGED''] else []);
          statusStr = (if length status > 0 then ''['' @ Join status '', '' @ ''] '' else [])
      in statusStr @ ''by '' @ author @ '' '' @ bullet @ '' Created '' @ created)"

subsection \<open>Comments\<close>

definition CommentItem_FilterValue :: "PullRequestComment \<Rightarrow> string" where
  "CommentItem_FilterValue c = GetString (c_Body c)"

text \<open>
  The title strips one match of the regular expression \<open>^\s*#\s*\<close>, whose \<open>\s\<close> is
  tab, line feed, form feed, carriage return or space. \<open>strings.TrimSpace\<close> is the
  parameter \<open>TrimSpace\<close>.
\<close>

definition isRegexSpace :: "char \<Rightarrow> bool" where
  "isRegexSpace ch = (ch = CHR 0x09 \<or> ch = CHR 0x0A \<or> ch = CHR 0x0C \<or> ch = CHR 0x0D \<or> ch = CHR '' '')"

definition stripHeading :: "string \<Rightarrow> string" where
  "stripHeading line =
     (case dropWhile isRegexSpace line of
        [] \<Rightarrow> line
      | ch # rest \<Rightarrow> if ch = CHR ''#'' then dropWhile isRegexSpace rest else line)"

fun firstTitle :: "(string \<Rightarrow> string) \<Rightarrow> string list \<Rightarrow> string" where
  "firstTitle TrimSpace [] = ''Empty comment''"
| "firstTitle TrimSpace (l # ls) =
     (let line = TrimSpace l
      in if line \<noteq> []
         then (let line = stripHeading line
               in if length line > 80 then take 77 line @ ''...'' else line)
         else firstTitle TrimSpace ls)"

definition CommentItem_Title :: "(string \<Rightarrow> string) \<Rightarrow> PullRequestComment \<Rightarrow> string" where
  "CommentItem_Title TrimSpace c =
     firstTitle TrimSpace (Split (TrimSpace (GetString (c_Body c))) (CHR 0x0A))"

text \<open>
  The part of the description after the time: the file path and the line ranges
  (the variable \<open>fileInfo\<close> of \<open>Description\<close>).
\<close>

definition CommentItem_fileInfo :: "PullRequestComment \<Rightarrow> string" where
  "CommentItem_fileInfo c =
     (if GetString (c_Path c) \<noteq> [] then
        (let fileInfo = '' '' @ bullet @ '' '' @ GetString (c_Path c);
             line = GetInt (c_Line c);
             startLine = GetInt (c_StartLine c);
             originalLine = GetInt (c_OriginalLine c);
             originalStartLine = GetInt (c_OriginalStartLine c);
             fileInfo =
               (if line \<noteq> 0 then
                  (if startLine \<noteq> 0 \<and> startLine \<noteq> line
                   then fileInfo @ '' L'' @ itoa startLine @ ''-'' @ itoa line
                   else fileInfo @ '' L'' @ itoa line)
                else fileInfo);
             fileInfo =
               (if originalLine \<noteq> 0 \<and> originalLine \<noteq> line then
                  (if originalStartLine \<noteq> 0 \<and> originalStartLine \<noteq> originalLine
                   then fileInfo @ '' (orig L'' @ itoa originalStartLine @ ''-'' @
                        itoa originalLine @ '')''
                   else fileInfo @ '' (orig L'' @ itoa originalLine @ '')'')
                else fileInfo)
         in fileInfo)
      else [])"

definition CommentItem_Description ::
  "(Timestamp \<Rightarrow> string \<Rightarrow> string) \<Rightarrow> PullRequestComment \<Rightarrow> string" where
  "CommentItem_Description Format c =
     (let author = GetLogin (c_User c);
          created = (case c_CreatedAt c of None \<Rightarrow> [] | Some t \<Rightarrow> Format t ''2006-01-02 15:04'');
          timeInfo =
            (case (c_UpdatedAt c, c_CreatedAt c) of
               (Some u, Some _) \<Rightarrow>
                 (let updated = Format u ''2006-01-02 15:04''
                  in if updated \<noteq> created then created @ '' (updated '' @ updated @ '')''
                     else created)
             | _ \<Rightarrow> created)
      in ''by '' @ author @ '' '' @ bullet @ '' '' @ timeInfo @ CommentItem_fileInfo c)"

subsection \<open>The line ranges of the prompt generator\<close>

text \<open>\<open>buildTemplateData\<close> fills \<open>LineRange\<close> and \<open>OriginalLineRange\<close> by the same rule.\<close>

definition LineRange :: "PullRequestComment \<Rightarrow> string" where
  "LineRange c =
     (let Line = GetInt (c_Line c); StartLine = GetInt (c_StartLine c)
      in if Line \<noteq> 0 then
           (if StartLine \<noteq> 0 \<and> StartLine \<noteq> Line
            then ''L'' @ itoa StartLine @ ''-'' @ itoa Line
            else ''L'' @ itoa Line)
         else [])"

definition OriginalLineRange :: "PullRequestComment \<Rightarrow> string" where
  "OriginalLineRange c =
     (let Line = GetInt (c_Line c); OriginalLine = GetInt (c_OriginalLine c);
          OriginalStartLine = GetInt (c_OriginalStartLine c)
      in if OriginalLine \<noteq> 0 \<and> OriginalLine \<noteq> Line then
           (if OriginalStartLine \<noteq> 0 \<and> OriginalStartLine \<noteq> OriginalLine
            then ''L'' @ itoa OriginalStartLine @ ''-'' @ itoa OriginalLine
            else ''L'' @ itoa OriginalLine)
         else [])"

text \<open>
  The rule for a line range in the words of the specification, to compare the adapters
  with: a range whose start line is present and differs from its end line is written
  \<open>L<start>-<end>\<close>, any other \<open>L<end>\<close>.
\<close>

definition spec_line_range :: "int \<Rightarrow> int \<Rightarrow> string" where
  "spec_line_range start_line end_line =
     (if start_line \<noteq> 0 \<and> start_line \<noteq> end_line
      then ''L'' @ itoa start_line @ ''-'' @ itoa end_line
      else ''L'' @ itoa end_line)"

section \<open>The application\<close>

subsection \<open>State, items, commands and the widget libraries\<close>

datatype State = StateRepos | StatePRs | StateComments | StateCommentDetail

text \<open>A list holds items behind the \<open>list.Item\<close> interface: one of the three adapters.\<close>

datatype Item = RepoItem Repository | PRItem PullRequest | CommentItem PullRequestComment

text \<open>
  A command (\<open>tea.Cmd\<close>) is what the framework is asked to do next: \<open>CmdNil\<close> is
  Go's \<open>nil\<close>, a fetch command delivers the message that \<open>FetchPRs\<close> or \<open>FetchComments\<close>
  computes, \<open>Tick n\<close> delivers \<open>clearCopyStatusMsg\<close> after \<open>n\<close> seconds, and \<open>WidgetCmd\<close>
  is a command returned by a widget's own \<open>Update\<close>.
\<close>

datatype 'w Cmd =
    CmdNil
  | Quit
  | EnterAltScreen
  | FetchReposCmd
  | FetchPRsCmd Repository
  | FetchCommentsCmd Repository PullRequest
  | Tick nat
  | WidgetCmd 'w
  | Batch "'w Cmd list"

text \<open>A style of the lipgloss library is the list of the attributes set on it.\<close>

datatype style_attr =
    Align_Center
  | Foreground string
  | Background string
  | Bold
  | Italic
  | Underline
  | Padding int int
  | MarginBottom int
  | Border_Rounded
  | BorderForeground string

text \<open>
  The viewport's \<open>Width\<close> and \<open>Height\<close> are public fields that the application assigns;
  the rest of the widget (content, scroll offset) is opaque.
\<close>

record 'v viewport =
  Width :: int
  Height :: int
  vp_rest :: 'v

text \<open>
  The list and viewport widgets (bubbles), the styling and Markdown renderers (lipgloss,
  glamour), Go's \<open>time\<close> and \<open>strings\<close>, the clipboard and the prompt templates are
  collaborators of the application. They are the fields of one record, a parameter of
  every function below: \<open>'l\<close> is the list widget's model, \<open>'v\<close> the opaque part of the
  viewport, \<open>'w\<close> the widgets' own messages and commands. \<open>list_SetItems\<close> returns the
  list only: the application drops the command the library returns with it.
  \<open>glamour_Render\<close> takes the word-wrap width and returns the error or the rendering;
  \<open>clipboard_Copy\<close> returns the error, if any.
\<close>

record ('l, 'v, 'w) env =
  list_SetSize :: "int \<Rightarrow> int \<Rightarrow> 'l \<Rightarrow> 'l"
  list_SetItems :: "Item list \<Rightarrow> 'l \<Rightarrow> 'l"
  list_SelectedItem :: "'l \<Rightarrow> Item option"
  list_SettingFilter :: "'l \<Rightarrow> bool"
  list_Update :: "'w msg \<Rightarrow> 'l \<Rightarrow> 'l \<times> 'w Cmd"
  list_View :: "'l \<Rightarrow> string"
  viewport_Update :: "'w msg \<Rightarrow> 'v viewport \<Rightarrow> 'v viewport \<times> 'w Cmd"
  viewport_View :: "'v viewport \<Rightarrow> string"
  viewport_SetContent :: "string \<Rightarrow> 'v viewport \<Rightarrow> 'v viewport"
  viewport_LineUp :: "int \<Rightarrow> 'v viewport \<Rightarrow> 'v viewport"
  viewport_LineDown :: "int \<Rightarrow> 'v viewport \<Rightarrow> 'v viewport"
  viewport_HalfViewUp :: "'v viewport \<Rightarrow> 'v viewport"
  viewport_HalfViewDown :: "'v viewport \<Rightarrow> 'v viewport"
  viewport_GotoTop :: "'v viewport \<Rightarrow> 'v viewport"
  viewport_GotoBottom :: "'v viewport \<Rightarrow> 'v viewport"
  lipgloss_Render :: "style_attr list \<Rightarrow> string \<Rightarrow> string"
  lipgloss_JoinVertical :: "string list \<Rightarrow> string"
  glamour_Render :: "int \<Rightarrow> string \<Rightarrow> string + string"
  time_Format :: "Timestamp \<Rightarrow> string \<Rightarrow> string"
  strings_TrimSpace :: "string \<Rightarrow> string"
  clipboard_Copy :: "string \<Rightarrow> string option"
  GenerateSimplePrompt :: "Repository \<Rightarrow> PullRequest \<Rightarrow> PullRequestComment \<Rightarrow> string"
  GenerateFullPrompt :: "Repository \<Rightarrow> PullRequest \<Rightarrow> PullRequestComment \<Rightarrow> string"

text \<open>
  The application's state. The client and the prompt generator are handles without
  state of their own. An error is its text. Go's \<open>int\<close> is \<open>int\<close>: terminal dimensions
  are far from the range where machine arithmetic wraps.
\<close>

record ('l, 'v) App =
  state :: State
  repoList :: 'l
  prList :: 'l
  commentList :: 'l
  commentViewport :: "'v viewport"
  currentRepo :: "Repository option"
  currentPR :: "PullRequest option"
  currentComment :: "PullRequestComment option"
  loading :: bool
  err :: "string option"
  width :: int
  height :: int
  copyStatus :: string
  showReplies :: bool
  useSimplePrompt :: bool

text \<open>
  \<open>New\<close>: the three lists and the viewport come from the libraries' constructors
  (the viewport is created with width and height 0).
\<close>

definition New :: "'l \<Rightarrow> 'l \<Rightarrow> 'l \<Rightarrow> 'v \<Rightarrow> ('l, 'v) App" where
  "New repoList0 prList0 commentList0 viewport0 =
     \<lparr>state = StateRepos,
      repoList = repoList0,
      prList = prList0,
      commentList = commentList0,
      commentViewport = \<lparr>Width = 0, Height = 0, vp_rest = viewport0\<rparr>,
      currentRepo = None,
      currentPR = None,
      currentComment = None,
      loading = True,
      err = None,
      width = 0,
      height = 0,
      copyStatus = [],
      showReplies = False,
      useSimplePrompt = False\<rparr>"

definition fetchRepos :: "'w Cmd" where
  "fetchRepos = FetchReposCmd"

definition Init :: "'w Cmd" where
  "Init = Batch [fetchRepos, EnterAltScreen]"

definition fetchPRs :: "('l, 'v) App \<Rightarrow> 'w Cmd" where
  "fetchPRs a = (case currentRepo a of None \<Rightarrow> CmdNil | Some r \<Rightarrow> FetchPRsCmd r)"

definition fetchComments :: "('l, 'v) App \<Rightarrow> 'w Cmd" where
  "fetchComments a =
     (case (currentRepo a, currentPR a) of
        (Some r, Some p) \<Rightarrow> FetchCommentsCmd r p
      | _ \<Rightarrow> CmdNil)"

text \<open>The accessors of go-github on a pointer that may be \<open>nil\<close>.\<close>

definition Repo_GetName :: "Repository option \<Rightarrow> string" where
  "Repo_GetName r = (case r of None \<Rightarrow> [] | Some x \<Rightarrow> GetString (repo_Name x))"

definition PR_GetNumber :: "PullRequest option \<Rightarrow> int" where
  "PR_GetNumber p = (case p of None \<Rightarrow> 0 | Some x \<Rightarrow> GetInt (pr_Number x))"

definition PR_GetTitle :: "PullRequest option \<Rightarrow> string" where
  "PR_GetTitle p = (case p of None \<Rightarrow> [] | Some x \<Rightarrow> GetString (pr_Title x))"

subsection \<open>Rendering\<close>

definition glyph_open :: string where
  "glyph_open = [CHR 0xF0, CHR 0x9F, CHR 0x9F, CHR 0xA2]"

definition glyph_closed :: string where
  "glyph_closed = [CHR 0xF0, CHR 0x9F, CHR 0x94, CHR 0xB4]"

definition glyph_folder :: string where
  "glyph_folder = [CHR 0xF0, CHR 0x9F, CHR 0x93, CHR 0x81]"

definition glyph_pin :: string where
  "glyph_pin = [CHR 0xF0, CHR 0x9F, CHR 0x93, CHR 0x8D]"

definition glyph_bulb :: string where
  "glyph_bulb = [CHR 0xF0, CHR 0x9F, CHR 0x92, CHR 0xA1]"

definition glyph_check :: string where
  "glyph_check = [CHR 0xE2, CHR 0x9C, CHR 0x85]"

definition glyph_switch :: string where
  "glyph_switch = [CHR 0xF0, CHR 0x9F, CHR 0x94, CHR 0x84]"

definition glyph_up :: string where
  "glyph_up = [CHR 0xE2, CHR 0x86, CHR 0x91]"

definition glyph_down :: string where
  "glyph_down = [CHR 0xE2, CHR 0x86, CHR 0x93]"

definition buildSelectedPRInfo :: "('l, 'v, 'w) env \<Rightarrow> PullRequest option \<Rightarrow> string" where
  "buildSelectedPRInfo E pr =
     (case pr of
        None \<Rightarrow> []
      | Some p \<Rightarrow>
          (let titleStyle = [Bold, Foreground ''12''];
               metaStyle = [Foreground ''8'', MarginBottom 1];
               title = ''#'' @ itoa (GetInt (pr_Number p)) @ '' '' @ GetString (pr_Title p);
               author = GetLogin (pr_User p);
               created = (case pr_CreatedAt p of None \<Rightarrow> []
                          | Some t \<Rightarrow> time_Format E t ''2006-01-02 15:04'');
               statusParts = (if GetBool (pr_Draft p) then [''DRAFT''] else []) @
                             (if GetBool (pr_Merged p) then [''MERGED''] else []) @
                             (if GetString (pr_State p) = ''open'' then [glyph_open @ '' OPEN'']
                              else if GetString (pr_State p) = ''closed''
                              then [glyph_closed @ '' CLOSED''] else []);
               statusStr = (if length statusParts > 0
                            then '' ['' @ Join statusParts '', '' @ '']'' else []);
               meta = ''by '' @ author @ '' '' @ bullet @ '' '' @ created @ statusStr
           in lipgloss_JoinVertical E
                [lipgloss_Render E titleStyle title, lipgloss_Render E metaStyle meta]))"

definition buildPRInfo :: "('l, 'v, 'w) env \<Rightarrow> ('l, 'v) App \<Rightarrow> string" where
  "buildPRInfo E a =
     (case currentPR a of None \<Rightarrow> [] | Some p \<Rightarrow> buildSelectedPRInfo E (Some p))"

definition renderMarkdown :: "('l, 'v, 'w) env \<Rightarrow> ('l, 'v) App \<Rightarrow> string \<Rightarrow> string + string" where
  "renderMarkdown E a content =
     (let wrapWidth = (if width a > 16 then width a - 8 else 80)
      in case glamour_Render E wrapWidth content of
           Inl e \<Rightarrow> Inl e
         | Inr rendered \<Rightarrow> Inr (strings_TrimSpace E rendered))"

definition renderCodeContext :: "('l, 'v, 'w) env \<Rightarrow> ('l, 'v) App \<Rightarrow> string \<Rightarrow> string" where
  "renderCodeContext E a diffHunk =
     (if diffHunk = [] then []
      else
        (let codeBlockStyle = [Foreground ''252'', Background ''234'', Padding 1 2,
                               Border_Rounded, BorderForeground ''240'', MarginBottom 1];
             fence = replicate 3 (CHR 0x60);
             diffMarkdown = fence @ ''diff'' @ [CHR 0x0A] @ diffHunk @ [CHR 0x0A] @ fence
         in case renderMarkdown E a diffMarkdown of
              Inl e \<Rightarrow> lipgloss_Render E codeBlockStyle diffHunk
            | Inr rendered \<Rightarrow> rendered))"

definition renderFileContext ::
  "('l, 'v, 'w) env \<Rightarrow> ('l, 'v) App \<Rightarrow> string \<Rightarrow> int \<Rightarrow> int \<Rightarrow> string" where
  "renderFileContext E a path line originalLine =
     (if path = [] then []
      else
        (let infoStyle = [Foreground ''248''];
             startLine = (case currentComment a of None \<Rightarrow> 0 | Some c \<Rightarrow> GetInt (c_StartLine c));
             originalStartLine =
               (case currentComment a of None \<Rightarrow> 0 | Some c \<Rightarrow> GetInt (c_OriginalStartLine c));
             info = [glyph_folder @ '' '' @ path] @
               (if line \<noteq> 0 then
                  (if startLine \<noteq> 0 \<and> startLine \<noteq> line
                   then [glyph_pin @ '' Lines: L'' @ itoa startLine @ ''-'' @ itoa line]
                   else [glyph_pin @ '' Line: L'' @ itoa line])
                else []) @
               (if originalLine \<noteq> 0 \<and> originalLine \<noteq> line then
                  (if originalStartLine \<noteq> 0 \<and> originalStartLine \<noteq> originalLine
                   then [glyph_pin @ '' Original Lines: L'' @ itoa originalStartLine @ ''-'' @
                         itoa originalLine]
                   else [glyph_pin @ '' Original Line: L'' @ itoa originalLine])
                else [])
         in lipgloss_Render E infoStyle (Join info ('' '' @ bullet @ '' ''))))"

definition renderDirectLink :: "('l, 'v, 'w) env \<Rightarrow> string \<Rightarrow> string" where
  "renderDirectLink E url =
     (if url = [] then []
      else
        (let linkContentStyle = [Foreground ''110'', Background ''235'', Padding 1 2,
                                 MarginBottom 1, Underline];
             linkInstructionStyle = [Foreground ''248'', Italic, MarginBottom 1];
             instruction = glyph_bulb @
               '' Copy this URL to open the comment directly in your browser''
         in lipgloss_JoinVertical E
              [lipgloss_Render E linkContentStyle url,
               lipgloss_Render E linkInstructionStyle instruction]))"

text \<open>
  \<open>buildCommentDetail\<close> dereferences \<open>CreatedAt\<close> whenever \<open>UpdatedAt\<close> is present: with
  \<open>CreatedAt\<close> absent the program panics, which is the result \<open>None\<close>.
\<close>

definition buildCommentDetail :: "('l, 'v, 'w) env \<Rightarrow> ('l, 'v) App \<Rightarrow> string option" where
  "buildCommentDetail E a =
     (case currentComment a of
        None \<Rightarrow> Some []
      | Some c \<Rightarrow>
          (let titleStyle = [Background ''62'', Foreground ''230'', Padding 0 1, MarginBottom 1];
               metaStyle = [Foreground ''248'', MarginBottom 1];
               title = ''Comment on #'' @ itoa (PR_GetNumber (currentPR a)) @ '' '' @
                       PR_GetTitle (currentPR a);
               prTitle = lipgloss_Render E titleStyle title;
               author = GetLogin (c_User c);
               created = (case c_CreatedAt c of None \<Rightarrow> []
                          | Some t \<Rightarrow> time_Format E t ''2006-01-02 15:04'')
           in case (case c_UpdatedAt c of
                      None \<Rightarrow> Some []
                    | Some u \<Rightarrow>
                        (case c_CreatedAt c of
                           None \<Rightarrow> None
                         | Some cr \<Rightarrow>
                             Some (if u \<noteq> cr
                                   then '' (updated '' @ time_Format E u ''2006-01-02 15:04'' @ '')''
                                   else []))) of
                None \<Rightarrow> None
              | Some updated \<Rightarrow>
                  (let commentMeta = ''By: '' @ author @ [CHR 0x0A] @ ''Created: '' @ created @ updated;
                       body = GetString (c_Body c);
                       body = (if body = [] then ''No content provided'' else body);
                       fallbackStyle = [Foreground ''252'', Background ''236'', Padding 1 2,
                                        Border_Rounded, BorderForeground ''242'', MarginBottom 1];
                       sections = [prTitle, lipgloss_Render E metaStyle commentMeta] @
                         [case renderMarkdown E a body of
                            Inl e \<Rightarrow> lipgloss_Render E fallbackStyle body
                          | Inr rendered \<Rightarrow> rendered] @
                         [[]] @
                         (if GetString (c_Path c) \<noteq> [] \<or> GetString (c_DiffHunk c) \<noteq> [] then
                            (if GetString (c_Path c) \<noteq> []
                             then [renderFileContext E a (GetString (c_Path c))
                                     (GetInt (c_Line c)) (GetInt (c_OriginalLine c))]
                             else []) @
                            (if GetString (c_DiffHunk c) \<noteq> []
                             then [renderCodeContext E a (GetString (c_DiffHunk c))]
                             else [[]])
                          else []) @
                         (if GetString (c_HTMLURL c) \<noteq> []
                          then [renderDirectLink E (GetString (c_HTMLURL c))] else [])
                   in Some (lipgloss_JoinVertical E sections))))"

text \<open>
  \<open>View\<close> has a pointer receiver and writes the viewport's height in the detail state,
  so it returns the frame and the application state it leaves. The viewport's frame is
  taken before the height is written.
\<close>

definition View :: "('l, 'v, 'w) env \<Rightarrow> ('l, 'v) App \<Rightarrow> string \<times> ('l, 'v) App" where
  "View E a =
     (if loading a then (lipgloss_Render E [Align_Center] ''Loading...'', a)
      else case err a of
        Some e \<Rightarrow> (lipgloss_Render E [Foreground ''9''] (''Error: '' @ e), a)
      | None \<Rightarrow>
          (let content =
                 (case state a of
                    StateRepos \<Rightarrow> list_View E (repoList a)
                  | StatePRs \<Rightarrow> list_View E (prList a)
                  | StateComments \<Rightarrow>
                      lipgloss_JoinVertical E [buildPRInfo E a, list_View E (commentList a)]
                  | StateCommentDetail \<Rightarrow> viewport_View E (commentViewport a));
               breadcrumb =
                 (case state a of
                    StateRepos \<Rightarrow> ''Repositories''
                  | StatePRs \<Rightarrow>
                      ''Repositories > '' @ Repo_GetName (currentRepo a) @ '' > Pull Requests''
                  | StateComments \<Rightarrow>
                      ''Repositories > '' @ Repo_GetName (currentRepo a) @ '' > Pull Requests > #'' @
                      itoa (PR_GetNumber (currentPR a)) @ '' > Comments''
                  | StateCommentDetail \<Rightarrow>
                      ''Repositories > '' @ Repo_GetName (currentRepo a) @ '' > Pull Requests > #'' @
                      itoa (PR_GetNumber (currentPR a)) @ '' > Comments > Comment'');
               helpText =
                 (if state a = StateCommentDetail then
                    ''c: copy prompt ('' @ (if useSimplePrompt a then ''simple'' else ''full'') @
                    '') '' @ bullet @ '' t: toggle prompt mode '' @ bullet @ '' '' @ glyph_up @
                    ''/'' @ glyph_down @ '' j/k: scroll '' @ bullet @ '' Esc: back '' @ bullet @
                    '' q: quit''
                  else if state a = StateComments then
                    ''Enter: select '' @ bullet @ '' r: '' @
                    (if showReplies a then ''hide'' else ''show'') @ '' replies '' @ bullet @
                    '' Esc: back '' @ bullet @ '' q: quit''
                  else ''Enter: select '' @ bullet @ '' Esc: back '' @ bullet @ '' q: quit'');
               help = lipgloss_Render E [Foreground ''8''] helpText
           in if state a = StateCommentDetail then
                (let fixedLines = 6;
                     viewportHeight = max (height a - fixedLines) 1;
                     a' = (if Height (commentViewport a) \<noteq> viewportHeight
                           then a\<lparr>commentViewport := (commentViewport a)\<lparr>Height := viewportHeight\<rparr>\<rparr>
                           else a);
                     header = lipgloss_JoinVertical E [lipgloss_Render E [Bold] breadcrumb, []];
                     statusSection = lipgloss_Render E [Foreground ''2'', Bold] (copyStatus a);
                     layoutElements = [header, content] @
                       (if statusSection \<noteq> [] then [[], statusSection] else [[]]) @
                       [[], help]
                 in (lipgloss_JoinVertical E layoutElements, a'))
              else
                (let elements = [lipgloss_Render E [Bold] breadcrumb, []] @
                       (if copyStatus a \<noteq> []
                        then [lipgloss_Render E [Foreground ''2'', Bold] (copyStatus a), []]
                        else []) @
                       [content, [], help]
                 in (lipgloss_JoinVertical E elements, a))))"

subsection \<open>Event handling\<close>

text \<open>
  A handler returns the new state and the command, or \<open>None\<close> when the program panics:
  a failed type assertion on the selected item, or the dereference in \<open>buildCommentDetail\<close>.
\<close>

definition handleEnter ::
  "('l, 'v, 'w) env \<Rightarrow> ('l, 'v) App \<Rightarrow> (('l, 'v) App \<times> 'w Cmd) option" where
  "handleEnter E a =
     (case state a of
        StateRepos \<Rightarrow>
          (case list_SelectedItem E (repoList a) of
             None \<Rightarrow> Some (a, CmdNil)
           | Some (RepoItem r) \<Rightarrow>
               (let a = a\<lparr>currentRepo := Some r\<rparr>;
                    a = a\<lparr>state := StatePRs\<rparr>;
                    a = a\<lparr>loading := True\<rparr>
                in Some (a, fetchPRs a))
           | Some _ \<Rightarrow> None)
      | StatePRs \<Rightarrow>
          (case list_SelectedItem E (prList a) of
             None \<Rightarrow> Some (a, CmdNil)
           | Some (PRItem p) \<Rightarrow>
               (let a = a\<lparr>currentPR := Some p\<rparr>;
                    a = a\<lparr>state := StateComments\<rparr>;
                    a = a\<lparr>loading := True\<rparr>
                in Some (a, fetchComments a))
           | Some _ \<Rightarrow> None)
      | StateComments \<Rightarrow>
          (case list_SelectedItem E (commentList a) of
             None \<Rightarrow> Some (a, CmdNil)
           | Some (CommentItem c) \<Rightarrow>
               (let a = a\<lparr>currentComment := Some c\<rparr>;
                    a = a\<lparr>state := StateCommentDetail\<rparr>;
                    fixedLines = 6;
                    viewportHeight = max (height a - fixedLines) 1;
                    a = a\<lparr>commentViewport := (commentViewport a)\<lparr>Width := width a - 4\<rparr>\<rparr>;
                    a = a\<lparr>commentViewport := (commentViewport a)\<lparr>Height := viewportHeight\<rparr>\<rparr>
                in case buildCommentDetail E a of
                     None \<Rightarrow> None
                   | Some content \<Rightarrow>
                       Some (a\<lparr>commentViewport :=
                                 viewport_SetContent E content (commentViewport a)\<rparr>, CmdNil))
           | Some _ \<Rightarrow> None)
      | StateCommentDetail \<Rightarrow> Some (a, CmdNil))"

definition handleBack :: "('l, 'v) App \<Rightarrow> ('l, 'v) App \<times> 'w Cmd" where
  "handleBack a =
     (case state a of
        StateRepos \<Rightarrow> (a, CmdNil)
      | StatePRs \<Rightarrow> (a\<lparr>state := StateRepos, currentRepo := None\<rparr>, CmdNil)
      | StateComments \<Rightarrow> (a\<lparr>state := StatePRs, currentPR := None\<rparr>, CmdNil)
      | StateCommentDetail \<Rightarrow> (a\<lparr>state := StateComments, currentComment := None\<rparr>, CmdNil))"

definition handleCopyPrompt :: "('l, 'v, 'w) env \<Rightarrow> ('l, 'v) App \<Rightarrow> ('l, 'v) App \<times> 'w Cmd" where
  "handleCopyPrompt E a =
     (case (currentRepo a, currentPR a, currentComment a) of
        (Some r, Some p, Some c) \<Rightarrow>
          (let promptText = (if useSimplePrompt a then GenerateSimplePrompt E r p c
                             else GenerateFullPrompt E r p c);
               promptType = (if useSimplePrompt a then ''Simple'' else ''Full'')
           in case clipboard_Copy E promptText of
                Some e \<Rightarrow> (a\<lparr>copyStatus := ''Copy failed: '' @ e\<rparr>, Tick 3)
              | None \<Rightarrow>
                  (a\<lparr>copyStatus := glyph_check @ '' '' @ promptType @
                                     '' prompt copied to clipboard!''\<rparr>, Tick 3))
      | _ \<Rightarrow> (a\<lparr>copyStatus := ''Error: Missing context for prompt generation''\<rparr>, CmdNil))"

definition handleTogglePromptMode :: "('l, 'v) App \<Rightarrow> ('l, 'v) App \<times> 'w Cmd" where
  "handleTogglePromptMode a =
     (let a = a\<lparr>useSimplePrompt := \<not> useSimplePrompt a\<rparr>;
          mode = (if useSimplePrompt a then ''Simple'' else ''Full'')
      in (a\<lparr>copyStatus := glyph_switch @ '' Switched to '' @ mode @ '' prompt mode''\<rparr>, Tick 2))"

definition handleToggleReplies :: "('l, 'v) App \<Rightarrow> ('l, 'v) App \<times> 'w Cmd" where
  "handleToggleReplies a =
     (let a = a\<lparr>showReplies := \<not> showReplies a\<rparr>;
          a = a\<lparr>loading := True\<rparr>
      in (a, fetchComments a))"

text \<open>
  The last statement of \<open>Update\<close> hands the message to the widget of the current state.
  Every branch of \<open>Update\<close> that does not return early ends here.
\<close>

definition updateCurrent ::
  "('l, 'v, 'w) env \<Rightarrow> ('l, 'v) App \<Rightarrow> 'w msg \<Rightarrow> ('l, 'v) App \<times> 'w Cmd" where
  "updateCurrent E a m =
     (case state a of
        StateRepos \<Rightarrow> (let (l, cmd) = list_Update E m (repoList a) in (a\<lparr>repoList := l\<rparr>, cmd))
      | StatePRs \<Rightarrow> (let (l, cmd) = list_Update E m (prList a) in (a\<lparr>prList := l\<rparr>, cmd))
      | StateComments \<Rightarrow>
          (let (l, cmd) = list_Update E m (commentList a) in (a\<lparr>commentList := l\<rparr>, cmd))
      | StateCommentDetail \<Rightarrow>
          (let (v, cmd) = viewport_Update E m (commentViewport a)
           in (a\<lparr>commentViewport := v\<rparr>, cmd)))"

text \<open>The comments kept for the list: all of them, or those that reply to nothing.\<close>

definition filteredComments :: "bool \<Rightarrow> PullRequestComment list \<Rightarrow> PullRequestComment list" where
  "filteredComments showReplies_a comments =
     filter (\<lambda>comment. showReplies_a \<or> GetInt (c_InReplyTo comment) = 0) comments"

definition Update ::
  "('l, 'v, 'w) env \<Rightarrow> ('l, 'v) App \<Rightarrow> 'w msg \<Rightarrow> (('l, 'v) App \<times> 'w Cmd) option" where
  "Update E a m =
     (case m of
        WindowSizeMsg Width_m Height_m \<Rightarrow>
          (let a = a\<lparr>width := Width_m\<rparr>;
               a = a\<lparr>height := Height_m\<rparr>;
               a = a\<lparr>repoList := list_SetSize E (Width_m - 4) (Height_m - 4) (repoList a)\<rparr>;
               a = a\<lparr>prList := list_SetSize E (Width_m - 4) (Height_m - 4) (prList a)\<rparr>;
               a = a\<lparr>commentList := list_SetSize E (Width_m - 4) (Height_m - 7) (commentList a)\<rparr>;
               availableHeight = Height_m - 5;
               availableHeight = (if copyStatus a \<noteq> [] then availableHeight - 2
                                  else availableHeight);
               a = a\<lparr>commentViewport := (commentViewport a)\<lparr>Width := Width_m - 4\<rparr>\<rparr>;
               a = a\<lparr>commentViewport := (commentViewport a)\<lparr>Height := availableHeight\<rparr>\<rparr>
           in Some (updateCurrent E a m))
      | KeyMsg k \<Rightarrow>
          (if k = ''ctrl+c'' \<or> k = ''q'' then Some (a, Quit)
           else if k = ''esc'' then
             (case state a of
                StateRepos \<Rightarrow>
                  (if list_SettingFilter E (repoList a)
                   then (let (l, cmd) = list_Update E m (repoList a)
                         in Some (a\<lparr>repoList := l\<rparr>, cmd))
                   else Some (handleBack a))
              | StatePRs \<Rightarrow>
                  (if list_SettingFilter E (prList a)
                   then (let (l, cmd) = list_Update E m (prList a)
                         in Some (a\<lparr>prList := l\<rparr>, cmd))
                   else Some (handleBack a))
              | StateComments \<Rightarrow>
                  (if list_SettingFilter E (commentList a)
                   then (let (l, cmd) = list_Update E m (commentList a)
                         in Some (a\<lparr>commentList := l\<rparr>, cmd))
                   else Some (handleBack a))
              | StateCommentDetail \<Rightarrow> Some (handleBack a))
           else if k = ''enter'' then handleEnter E a
           else if k = ''c'' then
             (if state a = StateCommentDetail then Some (handleCopyPrompt E a)
              else Some (updateCurrent E a m))
           else if k = ''t'' then
             (if state a = StateCommentDetail then Some (handleTogglePromptMode a)
              else Some (updateCurrent E a m))
           else if k = ''r'' then
             (if state a = StateComments then Some (handleToggleReplies a)
              else Some (updateCurrent E a m))
           else if k = ''up'' \<or> k = ''k'' then
             (if state a = StateCommentDetail
              then Some (a\<lparr>commentViewport := viewport_LineUp E 1 (commentViewport a)\<rparr>, CmdNil)
              else Some (updateCurrent E a m))
           else if k = ''down'' \<or> k = ''j'' then
             (if state a = StateCommentDetail
              then Some (a\<lparr>commentViewport := viewport_LineDown E 1 (commentViewport a)\<rparr>, CmdNil)
              else Some (updateCurrent E a m))
           else if k = ''pgup'' \<or> k = ''h'' then
             (if state a = StateCommentDetail
              then Some (a\<lparr>commentViewport := viewport_HalfViewUp E (commentViewport a)\<rparr>, CmdNil)
              else Some (updateCurrent E a m))
           else if k = ''pgdown'' \<or> k = ''l'' then
             (if state a = StateCommentDetail
              then Some (a\<lparr>commentViewport := viewport_HalfViewDown E (commentViewport a)\<rparr>, CmdNil)
              else Some (updateCurrent E a m))
           else if k = ''home'' \<or> k = ''g'' then
             (if state a = StateCommentDetail
              then Some (a\<lparr>commentViewport := viewport_GotoTop E (commentViewport a)\<rparr>, CmdNil)
              else Some (updateCurrent E a m))
           else if k = ''end'' \<or> k = ''G'' then
             (if state a = StateCommentDetail
              then Some (a\<lparr>commentViewport := viewport_GotoBottom E (commentViewport a)\<rparr>, CmdNil)
              else Some (updateCurrent E a m))
           else Some (updateCurrent E a m))
      | ReposMsg Repos Err \<Rightarrow>
          (let a = a\<lparr>loading := False\<rparr>
           in case Err of
                Some e \<Rightarrow> Some (a\<lparr>err := Some e\<rparr>, CmdNil)
              | None \<Rightarrow>
                  Some (updateCurrent E
                          (a\<lparr>repoList := list_SetItems E (map RepoItem Repos) (repoList a)\<rparr>) m))
      | PRsMsg PRs Err \<Rightarrow>
          (let a = a\<lparr>loading := False\<rparr>
           in case Err of
                Some e \<Rightarrow> Some (a\<lparr>err := Some e\<rparr>, CmdNil)
              | None \<Rightarrow>
                  Some (updateCurrent E
                          (a\<lparr>prList := list_SetItems E (map PRItem PRs) (prList a)\<rparr>) m))
      | CommentsMsg Comments Err \<Rightarrow>
          (let a = a\<lparr>loading := False\<rparr>
           in case Err of
                Some e \<Rightarrow> Some (a\<lparr>err := Some e\<rparr>, CmdNil)
              | None \<Rightarrow>
                  Some (updateCurrent E
                          (a\<lparr>commentList :=
                               list_SetItems E
                                 (map CommentItem (filteredComments (showReplies a) Comments))
                                 (commentList a)\<rparr>) m))
      | clearCopyStatusMsg \<Rightarrow> Some (updateCurrent E (a\<lparr>copyStatus := []\<rparr>) m)
      | OtherMsg x \<Rightarrow> Some (updateCurrent E a m))"

subsection \<open>The event loop\<close>

text \<open>
  The framework handles one message at a time: \<open>Update\<close>, then \<open>View\<close> on the state that
  \<open>Update\<close> left. \<open>step\<close> is one such round and \<open>run\<close> a sequence of them; a panic ends
  the program.
\<close>

definition step ::
  "('l, 'v, 'w) env \<Rightarrow> ('l, 'v) App \<Rightarrow> 'w msg \<Rightarrow> ('l, 'v) App option" where
  "step E a m = (case Update E a m of None \<Rightarrow> None | Some (a', cmd) \<Rightarrow> Some (snd (View E a')))"

fun run :: "('l, 'v, 'w) env \<Rightarrow> ('l, 'v) App \<Rightarrow> 'w msg list \<Rightarrow> ('l, 'v) App option" where
  "run E a [] = Some a"
| "run E a (m # ms) = (case step E a m of None \<Rightarrow> None | Some a' \<Rightarrow> run E a' ms)"

text \<open>The depth of a state in the hierarchy.\<close>

fun depth :: "State \<Rightarrow> nat" where
  "depth StateRepos = 0"
| "depth StatePRs = 1"
| "depth StateComments = 2"
| "depth StateCommentDetail = 3"

text \<open>
  The navigation invariant: a selection is present exactly from its level on. Two states
  are adjacent when their depths differ by at most one.
\<close>

definition nav_invariant :: "('l, 'v) App \<Rightarrow> bool" where
  "nav_invariant a =
     ((currentRepo a \<noteq> None) = (1 \<le> depth (state a)) \<and>
      (currentPR a \<noteq> None) = (2 \<le> depth (state a)) \<and>
      (currentComment a \<noteq> None) = (state a = StateCommentDetail))"

definition adjacent :: "State \<Rightarrow> State \<Rightarrow> bool" where
  "adjacent s s' = (depth s' \<le> depth s + 1 \<and> depth s \<le> depth s' + 1)"

text \<open>Two application states with the same level and the same selections.\<close>

definition same_selection :: "('l, 'v) App \<Rightarrow> ('l, 'v) App \<Rightarrow> bool" where
  "same_selection a a' =
     (state a' = state a \<and> currentRepo a' = currentRepo a \<and> currentPR a' = currentPR a \<and>
      currentComment a' = currentComment a)"

section \<open>An instance of the collaborators, and sample records\<close>

text \<open>
  The theorems below hold for every behaviour of the collaborators. To run the model on
  concrete inputs, \<open>plainEnv\<close> is one instance of them: a list that keeps its items, a
  cursor, its size and whether a filter is being typed, and whose \<open>Update\<close> leaves the
  filter prompt on \<open>esc\<close> and ignores every other message; a viewport whose \<open>Update\<close>
  ignores the message (a viewport reacts to keys and the mouse only); renderers that
  return the text as it is; a clipboard that succeeds; instants in seconds since 1970,
  written in UTC in the two layouts the program uses.
\<close>

record plain_list =
  pl_items :: "Item list"
  pl_cursor :: nat
  pl_filtering :: bool
  pl_width :: int
  pl_height :: int

definition plain_list0 :: plain_list where
  "plain_list0 = \<lparr>pl_items = [], pl_cursor = 0, pl_filtering = False, pl_width = 0, pl_height = 0\<rparr>"

definition pad2 :: "int \<Rightarrow> string" where
  "pad2 n = (if n < 10 then ''0'' @ itoa n else itoa n)"

definition civil_date :: "int \<Rightarrow> string" where
  "civil_date days =
     (let z = days + 719468;
          era = z div 146097;
          doe = z mod 146097;
          yoe = (doe - doe div 1460 + doe div 36524 - doe div 146096) div 365;
          doy = doe - (365 * yoe + yoe div 4 - yoe div 100);
          mp = (5 * doy + 2) div 153;
          d = doy - (153 * mp + 2) div 5 + 1;
          m = (if mp < 10 then mp + 3 else mp - 9);
          y = yoe + era * 400 + (if m \<le> 2 then 1 else 0)
      in itoa y @ ''-'' @ pad2 m @ ''-'' @ pad2 d)"

definition utcFormat :: "Timestamp \<Rightarrow> string \<Rightarrow> string" where
  "utcFormat t layout =
     (let secs = t mod 86400;
          date = civil_date (t div 86400);
          clock = pad2 (secs div 3600) @ '':'' @ pad2 ((secs mod 3600) div 60)
      in if layout = ''2006-01-02'' then date
         else if layout = ''2006-01-02 15:04'' then date @ '' '' @ clock
         else layout)"

definition trimSpaces :: "string \<Rightarrow> string" where
  "trimSpaces s = rev (dropWhile isRegexSpace (rev (dropWhile isRegexSpace s)))"

definition plainEnv :: "(plain_list, unit, unit) env" where
  "plainEnv =
     \<lparr>list_SetSize = (\<lambda>w h l. l\<lparr>pl_width := w, pl_height := h\<rparr>),
      list_SetItems = (\<lambda>xs l. l\<lparr>pl_items := xs\<rparr>),
      list_SelectedItem =
        (\<lambda>l. if pl_cursor l < length (pl_items l) then Some (pl_items l ! pl_cursor l) else None),
      list_SettingFilter = pl_filtering,
      list_Update =
        (\<lambda>m l. if m = KeyMsg ''esc'' \<and> pl_filtering l then (l\<lparr>pl_filtering := False\<rparr>, CmdNil)
                else (l, CmdNil)),
      list_View = (\<lambda>l. []),
      viewport_Update = (\<lambda>m v. (v, CmdNil)),
      viewport_View = (\<lambda>v. []),
      viewport_SetContent = (\<lambda>s v. v),
      viewport_LineUp = (\<lambda>n v. v),
      viewport_LineDown = (\<lambda>n v. v),
      viewport_HalfViewUp = (\<lambda>v. v),
      viewport_HalfViewDown = (\<lambda>v. v),
      viewport_GotoTop = (\<lambda>v. v),
      viewport_GotoBottom = (\<lambda>v. v),
      lipgloss_Render = (\<lambda>st s. s),
      lipgloss_JoinVertical = (\<lambda>xs. Join xs [CHR 0x0A]),
      glamour_Render = (\<lambda>w s. Inr s),
      time_Format = utcFormat,
      strings_TrimSpace = trimSpaces,
      clipboard_Copy = (\<lambda>s. None),
      GenerateSimplePrompt = (\<lambda>r p c. GetString (c_Body c)),
      GenerateFullPrompt = (\<lambda>r p c. GetString (c_Body c))\<rparr>"

definition plainApp :: "(plain_list, unit) App" where
  "plainApp = New plain_list0 plain_list0 plain_list0 ()"

text \<open>Records with every field absent, and the samples built from them.\<close>

definition nilRepository :: Repository where
  "nilRepository =
     \<lparr>repo_Name = None, repo_Owner = None, repo_Description = None, repo_Language = None,
      repo_UpdatedAt = None, repo_Private = None, repo_Fork = None\<rparr>"

definition nilPullRequest :: PullRequest where
  "nilPullRequest =
     \<lparr>pr_Number = None, pr_Title = None, pr_User = None, pr_CreatedAt = None,
      pr_Draft = None, pr_Merged = None, pr_State = None\<rparr>"

definition nilComment :: PullRequestComment where
  "nilComment =
     \<lparr>c_Body = None, c_User = None, c_CreatedAt = None, c_UpdatedAt = None, c_Path = None,
      c_Line = None, c_StartLine = None, c_OriginalLine = None, c_OriginalStartLine = None,
      c_InReplyTo = None, c_DiffHunk = None, c_HTMLURL = None\<rparr>"

definition repoHello :: Repository where
  "repoHello = nilRepository\<lparr>repo_Name := Some ''hello'', repo_Owner := Some \<lparr>Login = Some ''octo''\<rparr>\<rparr>"

definition prNumbered :: "int \<Rightarrow> PullRequest" where
  "prNumbered n = nilPullRequest\<lparr>pr_Number := Some n\<rparr>"

definition commentAt :: "Timestamp option \<Rightarrow> string \<Rightarrow> PullRequestComment" where
  "commentAt t body = nilComment\<lparr>c_Body := Some body, c_CreatedAt := t, c_UpdatedAt := t\<rparr>"

definition replyTo :: "int \<Rightarrow> string \<Rightarrow> PullRequestComment" where
  "replyTo n body = nilComment\<lparr>c_Body := Some body, c_InReplyTo := Some n\<rparr>"

definition commentOnLines :: "int option \<Rightarrow> int option \<Rightarrow> int option \<Rightarrow> int option \<Rightarrow> PullRequestComment" where
  "commentOnLines line startLine originalLine originalStartLine =
     nilComment\<lparr>c_Path := Some ''main.go'', c_Line := line, c_StartLine := startLine,
                c_OriginalLine := originalLine, c_OriginalStartLine := originalStartLine\<rparr>"

definition listThree :: "string \<Rightarrow> string \<Rightarrow> string + PullRequest list" where
  "listThree owner name = Inr [prNumbered 3, prNumbered 10, prNumbered 7]"

definition listCommentsThree :: "string \<Rightarrow> string \<Rightarrow> int \<Rightarrow> string + PullRequestComment list" where
  "listCommentsThree owner name number =
     Inr [commentAt (Some 100) ''first'', commentAt None ''undated'', commentAt (Some 300) ''latest'']"

text \<open>Application states at each level, as a session that selected these records has them.\<close>

definition filteringApp :: "(plain_list, unit) App" where
  "filteringApp = plainApp\<lparr>repoList := plain_list0\<lparr>pl_filtering := True\<rparr>, loading := False\<rparr>"

definition prsApp :: "(plain_list, unit) App" where
  "prsApp = plainApp\<lparr>state := StatePRs, currentRepo := Some repoHello, loading := False\<rparr>"

definition commentsApp :: "(plain_list, unit) App" where
  "commentsApp = prsApp\<lparr>state := StateComments, currentPR := Some (prNumbered 7)\<rparr>"

definition detailApp :: "(plain_list, unit) App" where
  "detailApp = commentsApp\<lparr>state := StateCommentDetail,
                 currentComment := Some (commentAt (Some 100) ''first'')\<rparr>"

definition enteredApp :: "(plain_list, unit) App" where
  "enteredApp = plainApp\<lparr>state := StatePRs,
                  repoList := plain_list0\<lparr>pl_items := [RepoItem repoHello]\<rparr>,
                  currentRepo := Some repoHello\<rparr>"

definition fiveComments :: "PullRequestComment list" where
  "fiveComments =
     [commentAt (Some 500) ''rename this'', replyTo 1 ''done'', commentAt (Some 300) ''add a test'',
      replyTo 3 ''added'', commentAt None ''typo'']"

definition recoveredApp :: "(plain_list, unit) App" where
  "recoveredApp = enteredApp\<lparr>prList := plain_list0\<lparr>pl_items := [PRItem (prNumbered 7)]\<rparr>,
                    loading := False, err := Some ''boom''\<rparr>"

definition failedApp :: "(plain_list, unit) App" where
  "failedApp = enteredApp\<lparr>loading := False, err := Some ''boom''\<rparr>"

definition backedOutApp :: "(plain_list, unit) App" where
  "backedOutApp = failedApp\<lparr>state := StateRepos, currentRepo := None\<rparr>"

text \<open>
  A second instance, \<open>filterEnv\<close>, whose list follows the three filter states of the
  list widget: \<open>/\<close> opens the filter prompt; while the filter is being typed a
  one-character key is added to its text, \<open>down\<close>, \<open>up\<close>, \<open>tab\<close> or \<open>enter\<close> accepts
  it (a list without items stays at the prompt, an empty text leaves the list
  unfiltered) and \<open>esc\<close> cancels it; with a filter applied \<open>esc\<close> clears it and \<open>/\<close>
  opens the prompt again. Only a filter being typed makes \<open>SettingFilter\<close> true.
  The other collaborators are those of \<open>plainEnv\<close>.
\<close>

datatype FilterState = Unfiltered | Filtering | FilterApplied

record filter_list =
  fl_items :: "Item list"
  fl_cursor :: nat
  fl_filterState :: FilterState
  fl_filterText :: string

definition filter_list0 :: filter_list where
  "filter_list0 = \<lparr>fl_items = [], fl_cursor = 0, fl_filterState = Unfiltered, fl_filterText = []\<rparr>"

definition filter_list_Update :: "unit msg \<Rightarrow> filter_list \<Rightarrow> filter_list \<times> unit Cmd" where
  "filter_list_Update m l =
     (case m of
        KeyMsg k \<Rightarrow>
          (case fl_filterState l of
             Unfiltered \<Rightarrow>
               (if k = ''/'' then (l\<lparr>fl_filterState := Filtering\<rparr>, CmdNil) else (l, CmdNil))
           | Filtering \<Rightarrow>
               (if k = ''esc''
                then (l\<lparr>fl_filterState := Unfiltered, fl_filterText := []\<rparr>, CmdNil)
                else if k = ''down'' \<or> k = ''up'' \<or> k = ''tab'' \<or> k = ''enter''
                then (if fl_items l = [] then (l, CmdNil)
                      else if fl_filterText l = []
                      then (l\<lparr>fl_filterState := Unfiltered\<rparr>, CmdNil)
                      else (l\<lparr>fl_filterState := FilterApplied\<rparr>, CmdNil))
                else if length k = 1 then (l\<lparr>fl_filterText := fl_filterText l @ k\<rparr>, CmdNil)
                else (l, CmdNil))
           | FilterApplied \<Rightarrow>
               (if k = ''esc''
                then (l\<lparr>fl_filterState := Unfiltered, fl_filterText := []\<rparr>, CmdNil)
                else if k = ''/'' then (l\<lparr>fl_filterState := Filtering\<rparr>, CmdNil)
                else (l, CmdNil)))
      | _ \<Rightarrow> (l, CmdNil))"

definition filterEnv :: "(filter_list, unit, unit) env" where
  "filterEnv =
     \<lparr>list_SetSize = (\<lambda>w h l. l),
      list_SetItems = (\<lambda>xs l. l\<lparr>fl_items := xs\<rparr>),
      list_SelectedItem =
        (\<lambda>l. if fl_cursor l < length (fl_items l) then Some (fl_items l ! fl_cursor l) else None),
      list_SettingFilter = (\<lambda>l. fl_filterState l = Filtering),
      list_Update = filter_list_Update,
      list_View = (\<lambda>l. []),
      viewport_Update = (\<lambda>m v. (v, CmdNil)),
      viewport_View = (\<lambda>v. []),
      viewport_SetContent = (\<lambda>s v. v),
      viewport_LineUp = (\<lambda>n v. v),
      viewport_LineDown = (\<lambda>n v. v),
      viewport_HalfViewUp = (\<lambda>v. v),
      viewport_HalfViewDown = (\<lambda>v. v),
      viewport_GotoTop = (\<lambda>v. v),
      viewport_GotoBottom = (\<lambda>v. v),
      lipgloss_Render = (\<lambda>st s. s),
      lipgloss_JoinVertical = (\<lambda>xs. Join xs [CHR 0x0A]),
      glamour_Render = (\<lambda>w s. Inr s),
      time_Format = utcFormat,
      strings_TrimSpace = trimSpaces,
      clipboard_Copy = (\<lambda>s. None),
      GenerateSimplePrompt = (\<lambda>r p c. GetString (c_Body c)),
      GenerateFullPrompt = (\<lambda>r p c. GetString (c_Body c))\<rparr>"

definition filterApp :: "(filter_list, unit) App" where
  "filterApp = New filter_list0 filter_list0 filter_list0 ()"

text \<open>
  The session that filters the pull requests of a repository: the repositories arrive,
  one is entered, its pull requests arrive, and the user types \<open>/\<close>, \<open>x\<close> and \<open>down\<close>.
\<close>

definition filterSession :: "unit msg list" where
  "filterSession =
     [ReposMsg [repoHello] None, KeyMsg ''enter'', PRsMsg [prNumbered 7] None,
      KeyMsg ''/'', KeyMsg ''x'', KeyMsg ''down'']"

definition appliedList :: filter_list where
  "appliedList = \<lparr>fl_items = [PRItem (prNumbered 7)], fl_cursor = 0,
                   fl_filterState = FilterApplied, fl_filterText = ''x''\<rparr>"

definition appliedApp :: "(filter_list, unit) App" where
  "appliedApp = filterApp\<lparr>state := StatePRs,
                  repoList := filter_list0\<lparr>fl_items := [RepoItem repoHello]\<rparr>,
                  prList := appliedList,
                  currentRepo := Some repoHello,
                  loading := False\<rparr>"

text \<open>
  The session that reaches the detail level with a stored error: down to the comments
  of a pull request, then \<open>r\<close>, whose fetch fails, then a comment of the list is opened.
  \<open>loadingSession\<close> is the same with the fetch still pending.
\<close>

definition erroredSession :: "unit msg list" where
  "erroredSession =
     [ReposMsg [repoHello] None, KeyMsg ''enter'', PRsMsg [prNumbered 7] None, KeyMsg ''enter'',
      CommentsMsg [commentAt (Some 100) ''first''] None, KeyMsg ''r'',
      CommentsMsg [] (Some ''boom''), KeyMsg ''enter'']"

definition loadingSession :: "unit msg list" where
  "loadingSession =
     [ReposMsg [repoHello] None, KeyMsg ''enter'', PRsMsg [prNumbered 7] None, KeyMsg ''enter'',
      CommentsMsg [commentAt (Some 100) ''first''] None, KeyMsg ''r'', KeyMsg ''enter'']"

text \<open>What the claims about resizing observe of a state.\<close>

definition detail_geometry ::
  "('l, 'v) App \<Rightarrow> State \<times> bool \<times> string option \<times> int \<times> int" where
  "detail_geometry a =
     (state a, loading a, err a, Width (commentViewport a), Height (commentViewport a))"

section \<open>Sorting\<close>

lemma mset_insertLeft: "mset (insertLeft lt x ys) = add_mset x (mset ys)"
  by (induction ys) auto

lemma set_insertLeft: "set (insertLeft lt x ys) = insert x (set ys)"
  by (induction ys) auto

lemma mset_insertionSortFrom:
  "mset (insertionSortFrom lt pre xs) = mset pre + mset xs"
  by (induction xs arbitrary: pre) (auto simp: mset_insertLeft)

text \<open>The reversed prefix is sorted the other way round: no element is \<open>lt\<close> a later one.\<close>

lemma sorted_insertLeft:
  assumes sw: "strict_weak lt"
    and srt: "sorted_wrt (\<lambda>a b. \<not> lt a b) ys"
  shows "sorted_wrt (\<lambda>a b. \<not> lt a b) (insertLeft lt x ys)"
  using srt
proof (induction ys)
  case Nil
  then show ?case by simp
next
  case (Cons y ys)
  have asym: "\<And>a b. lt a b \<Longrightarrow> \<not> lt b a"
    and ntrans: "\<And>a b c. \<not> lt a b \<Longrightarrow> \<not> lt b c \<Longrightarrow> \<not> lt a c"
    using sw unfolding strict_weak_def by blast+
  show ?case
  proof (cases "lt x y")
    case True
    have "\<not> lt y x" using True asym by blast
    moreover have "\<forall>z\<in>set ys. \<not> lt y z" using Cons.prems by simp
    moreover have "sorted_wrt (\<lambda>a b. \<not> lt a b) (insertLeft lt x ys)"
      using Cons by simp
    ultimately show ?thesis using True by (simp add: set_insertLeft)
  next
    case False
    have "\<forall>z\<in>set ys. \<not> lt x z"
    proof
      fix z assume "z \<in> set ys"
      then have "\<not> lt y z" using Cons.prems by simp
      with False show "\<not> lt x z" using ntrans by blast
    qed
    then show ?thesis using False Cons.prems by simp
  qed
qed

lemma sorted_insertionSortFrom:
  assumes sw: "strict_weak lt"
  shows "sorted_wrt (\<lambda>a b. \<not> lt a b) pre \<Longrightarrow>
         sorted_wrt (\<lambda>a b. \<not> lt b a) (insertionSortFrom lt pre xs)"
proof (induction xs arbitrary: pre)
  case Nil
  then show ?case by (simp add: sorted_wrt_rev)
next
  case (Cons x xs)
  then show ?case using sorted_insertLeft [OF sw] by simp
qed

lemma insertionSort_contract: "sort_Slice_contract insertionSort"
proof -
  have "sorted_wrt (\<lambda>a b. \<not> lt b a) (insertionSortFrom lt [] xs)"
    if "strict_weak lt" for lt :: "'a \<Rightarrow> 'a \<Rightarrow> bool" and xs
    using sorted_insertionSortFrom [OF that, of "[]" xs] by simp
  then show ?thesis
    unfolding sort_Slice_contract_def insertionSort_def
    by (simp add: mset_insertionSortFrom)
qed

lemma strict_weak_prLess: "strict_weak prLess"
  unfolding strict_weak_def prLess_def by auto

lemma strict_weak_commentLess: "strict_weak commentLess"
  unfolding strict_weak_def commentLess_def by (auto split: if_splits)

lemma sort_Slice_length:
  assumes "sort_Slice_contract srt" and "strict_weak lt"
  shows "length (srt lt xs) = length xs"
proof -
  have "mset (srt lt xs) = mset xs"
    using assms unfolding sort_Slice_contract_def by blast
  then show ?thesis by (metis size_mset)
qed

lemma sort_Slice_nth:
  assumes "sort_Slice_contract srt" and "strict_weak lt"
    and "i < j" and "j < length xs"
  shows "\<not> lt (srt lt xs ! j) (srt lt xs ! i)"
proof -
  have "sorted_wrt (\<lambda>a b. \<not> lt b a) (srt lt xs)"
    using assms(1,2) unfolding sort_Slice_contract_def by blast
  moreover have "j < length (srt lt xs)"
    using assms by (simp add: sort_Slice_length)
  ultimately show ?thesis
    using assms(3) by (simp add: sorted_wrt_iff_nth_less)
qed

section \<open>The order of the fetched lists\<close>

text \<open>
  C6. The pull requests of one repository's listing carry pairwise distinct numbers.
  For every such collection, in whatever order the network call returns it,
  \<open>FetchPRs\<close> delivers a permutation of it sorted strictly descending by number: of two
  positions the earlier holds the strictly greater number. (Without the distinctness
  the order is still descending: the later position never holds the greater number.)
\<close>

theorem FetchPRs_descending:
  assumes contract: "sort_Slice_contract sort_Slice"
    and fetched: "api_List (GetLogin (repo_Owner r)) (GetString (repo_Name r)) = Inr prs"
  shows "FetchPRs sort_Slice api_List (Some r) =
           (PRsMsg (sort_Slice prLess prs) None :: 'w msg) \<and>
         mset (sort_Slice prLess prs) = mset prs \<and>
         (\<forall>i j. i < j \<and> j < length prs \<longrightarrow>
            GetInt (pr_Number (sort_Slice prLess prs ! j)) \<le>
            GetInt (pr_Number (sort_Slice prLess prs ! i))) \<and>
         (distinct (map (\<lambda>p. GetInt (pr_Number p)) prs) \<longrightarrow>
            (\<forall>i j. i < j \<and> j < length prs \<longrightarrow>
               GetInt (pr_Number (sort_Slice prLess prs ! j)) <
               GetInt (pr_Number (sort_Slice prLess prs ! i))))"
proof -
  let ?out = "sort_Slice prLess prs"
  let ?num = "\<lambda>p. GetInt (pr_Number p)"
  have msg: "FetchPRs sort_Slice api_List (Some r) = (PRsMsg ?out None :: 'w msg)"
    using fetched by (simp add: FetchPRs_def)
  have perm: "mset ?out = mset prs"
    using contract strict_weak_prLess unfolding sort_Slice_contract_def by blast
  have len: "length ?out = length prs"
    using sort_Slice_length [OF contract strict_weak_prLess] .
  have desc: "?num (?out ! j) \<le> ?num (?out ! i)" if "i < j" "j < length prs" for i j
    using sort_Slice_nth [OF contract strict_weak_prLess that] by (simp add: prLess_def)
  have strict: "?num (?out ! j) < ?num (?out ! i)"
    if d: "distinct (map ?num prs)" and ij: "i < j" "j < length prs" for i j
  proof -
    have "mset (map ?num ?out) = mset (map ?num prs)"
      using perm by simp
    then have "distinct (map ?num ?out)"
      using d by (metis mset_eq_imp_distinct_iff)
    moreover have "i < length (map ?num ?out)" "j < length (map ?num ?out)" "i \<noteq> j"
      using ij len by simp_all
    ultimately have "map ?num ?out ! i \<noteq> map ?num ?out ! j"
      by (simp only: nth_eq_iff_index_eq) simp
    then have "?num (?out ! i) \<noteq> ?num (?out ! j)"
      using ij len by simp
    with desc [OF ij] show ?thesis by simp
  qed
  show ?thesis using msg perm desc strict by blast
qed

theorem FetchPRs_descending_witness:
  "sort_Slice_contract (insertionSort :: (PullRequest \<Rightarrow> PullRequest \<Rightarrow> bool) \<Rightarrow> _) \<and>
   listThree (GetLogin (repo_Owner repoHello)) (GetString (repo_Name repoHello)) =
     Inr [prNumbered 3, prNumbered 10, prNumbered 7] \<and>
   distinct (map (\<lambda>p. GetInt (pr_Number p)) [prNumbered 3, prNumbered 10, prNumbered 7]) \<and>
   FetchPRs insertionSort listThree (Some repoHello) =
     (PRsMsg [prNumbered 10, prNumbered 7, prNumbered 3] None :: unit msg) \<and>
   GetInt (pr_Number (insertionSort prLess [prNumbered 3, prNumbered 10, prNumbered 7] ! 1)) <
   GetInt (pr_Number (insertionSort prLess [prNumbered 3, prNumbered 10, prNumbered 7] ! 0)) \<and>
   GetInt (pr_Number (insertionSort prLess [prNumbered 3, prNumbered 10, prNumbered 7] ! 2)) <
   GetInt (pr_Number (insertionSort prLess [prNumbered 3, prNumbered 10, prNumbered 7] ! 1)) \<and>
   GetInt (pr_Number (insertionSort prLess [prNumbered 3, prNumbered 10, prNumbered 7] ! 2)) <
   GetInt (pr_Number (insertionSort prLess [prNumbered 3, prNumbered 10, prNumbered 7] ! 0))"
proof -
  let ?prs = "[prNumbered 3, prNumbered 10, prNumbered 7]"
  let ?num = "\<lambda>p. GetInt (pr_Number p)"
  have api: "listThree (GetLogin (repo_Owner repoHello)) (GetString (repo_Name repoHello)) =
             Inr ?prs"
    by (simp add: listThree_def)
  have dist: "distinct (map ?num ?prs)"
    by (simp add: prNumbered_def nilPullRequest_def GetInt_def)
  have sorted: "insertionSort prLess ?prs = [prNumbered 10, prNumbered 7, prNumbered 3]"
    by (simp add: insertionSort_def prLess_def prNumbered_def nilPullRequest_def GetInt_def)
  note inst = FetchPRs_descending [where ?'w = unit and sort_Slice = insertionSort
      and api_List = listThree and r = repoHello and prs = ?prs, OF insertionSort_contract api]
  have msg: "FetchPRs insertionSort listThree (Some repoHello) =
               (PRsMsg (insertionSort prLess ?prs) None :: unit msg)"
    using inst by blast
  have strict: "?num (insertionSort prLess ?prs ! j) < ?num (insertionSort prLess ?prs ! i)"
    if "i < j" "j < length ?prs" for i j
    using inst dist that by blast
  have "?num (insertionSort prLess ?prs ! 1) < ?num (insertionSort prLess ?prs ! 0)"
    "?num (insertionSort prLess ?prs ! 2) < ?num (insertionSort prLess ?prs ! 1)"
    "?num (insertionSort prLess ?prs ! 2) < ?num (insertionSort prLess ?prs ! 0)"
    by (rule strict; simp)+
  then show ?thesis
    using insertionSort_contract api dist msg unfolding sorted by simp
qed

text \<open>
  C7. In the list \<open>FetchComments\<close> delivers, a comment with a later update time than
  another's stands before it, and a comment without an update time stands after every
  comment that has one. Two comments with the same update time, or both without one, are
  equal to the comparison: neither is less than the other, so their order is whatever
  \<open>sort.Slice\<close> leaves. The delivered list is a permutation of the fetched one.
\<close>

theorem FetchComments_order:
  assumes contract: "sort_Slice_contract sort_Slice"
    and fetched: "api_ListComments (GetLogin (repo_Owner r)) (GetString (repo_Name r))
                    (GetInt (pr_Number p)) = Inr comments"
  shows "FetchComments sort_Slice api_ListComments (Some r) (Some p) =
           (CommentsMsg (sort_Slice commentLess comments) None :: 'w msg) \<and>
         mset (sort_Slice commentLess comments) = mset comments \<and>
         (\<forall>i j t u. i < length comments \<and> j < length comments \<and>
            c_UpdatedAt (sort_Slice commentLess comments ! i) = Some t \<and>
            c_UpdatedAt (sort_Slice commentLess comments ! j) = Some u \<and> u < t \<longrightarrow> i < j) \<and>
         (\<forall>i j t. i < length comments \<and> j < length comments \<and>
            c_UpdatedAt (sort_Slice commentLess comments ! i) = None \<and>
            c_UpdatedAt (sort_Slice commentLess comments ! j) = Some t \<longrightarrow> j < i) \<and>
         (\<forall>a b. c_UpdatedAt a = c_UpdatedAt b \<longrightarrow> \<not> commentLess a b \<and> \<not> commentLess b a)"
proof -
  let ?out = "sort_Slice commentLess comments"
  have msg: "FetchComments sort_Slice api_ListComments (Some r) (Some p) =
             (CommentsMsg ?out None :: 'w msg)"
    using fetched by (simp add: FetchComments_def)
  have perm: "mset ?out = mset comments"
    using contract strict_weak_commentLess unfolding sort_Slice_contract_def by blast
  have later: "i < j"
    if "i < length comments" "j < length comments"
      "c_UpdatedAt (?out ! i) = Some t" "c_UpdatedAt (?out ! j) = Some u" "u < t" for i j t u
  proof (rule ccontr)
    assume "\<not> i < j"
    moreover have "i \<noteq> j" using that by auto
    ultimately have "j < i" by simp
    then have "\<not> commentLess (?out ! i) (?out ! j)"
      using sort_Slice_nth [OF contract strict_weak_commentLess] that(1) by blast
    then show False using that by (simp add: commentLess_def)
  qed
  have undated: "j < i"
    if "i < length comments" "j < length comments"
      "c_UpdatedAt (?out ! i) = None" "c_UpdatedAt (?out ! j) = Some t" for i j t
  proof (rule ccontr)
    assume "\<not> j < i"
    moreover have "i \<noteq> j" using that by auto
    ultimately have "i < j" by simp
    then have "\<not> commentLess (?out ! j) (?out ! i)"
      using sort_Slice_nth [OF contract strict_weak_commentLess] that(2) by blast
    then show False using that by (simp add: commentLess_def)
  qed
  have ties: "\<not> commentLess a b \<and> \<not> commentLess b a" if "c_UpdatedAt a = c_UpdatedAt b" for a b
    using that by (simp add: commentLess_def)
  show ?thesis using msg perm later undated ties by blast
qed

theorem FetchComments_order_witness:
  "sort_Slice_contract
     (insertionSort :: (PullRequestComment \<Rightarrow> PullRequestComment \<Rightarrow> bool) \<Rightarrow> _) \<and>
   listCommentsThree (GetLogin (repo_Owner repoHello)) (GetString (repo_Name repoHello))
     (GetInt (pr_Number (prNumbered 7))) =
     Inr [commentAt (Some 100) ''first'', commentAt None ''undated'', commentAt (Some 300) ''latest''] \<and>
   FetchComments insertionSort listCommentsThree (Some repoHello) (Some (prNumbered 7)) =
     (CommentsMsg [commentAt (Some 300) ''latest'', commentAt (Some 100) ''first'',
                   commentAt None ''undated''] None :: unit msg)"
proof -
  have api: "listCommentsThree (GetLogin (repo_Owner repoHello)) (GetString (repo_Name repoHello))
               (GetInt (pr_Number (prNumbered 7))) =
             Inr [commentAt (Some 100) ''first'', commentAt None ''undated'',
                  commentAt (Some 300) ''latest'']"
    by (simp add: listCommentsThree_def)
  have sorted: "insertionSort commentLess
                  [commentAt (Some 100) ''first'', commentAt None ''undated'',
                   commentAt (Some 300) ''latest''] =
                [commentAt (Some 300) ''latest'', commentAt (Some 100) ''first'',
                 commentAt None ''undated'']"
    by (simp add: insertionSort_def commentLess_def commentAt_def nilComment_def)
  show ?thesis
    using FetchComments_order [where ?'w = unit and sort_Slice = insertionSort
        and api_ListComments = listCommentsThree and r = repoHello and p = "prNumbered 7"
        and comments = "[commentAt (Some 100) ''first'', commentAt None ''undated'',
                         commentAt (Some 300) ''latest'']", OF insertionSort_contract api]
      api sorted
      insertionSort_contract
    by simp
qed

section \<open>The Back key\<close>

text \<open>
  C10. At the root level, with no filter being typed into the repository list, \<open>esc\<close>
  changes nothing: \<open>Update\<close> returns the state as it was and no command (so the
  application does not quit), and the following render leaves the state alone too.
\<close>

theorem esc_at_root:
  assumes "state a = StateRepos" and "\<not> list_SettingFilter E (repoList a)"
  shows "Update E a (KeyMsg ''esc'') = Some (a, CmdNil) \<and> step E a (KeyMsg ''esc'') = Some a"
proof -
  have u: "Update E a (KeyMsg ''esc'') = Some (a, CmdNil)"
    using assms by (simp add: Update_def handleBack_def)
  have "snd (View E a) = a"
    using assms(1) by (simp add: View_def Let_def split: option.splits)
  with u show ?thesis by (simp add: step_def)
qed

theorem esc_at_root_witness:
  "state plainApp = StateRepos \<and> \<not> list_SettingFilter plainEnv (repoList plainApp) \<and>
   Update plainEnv plainApp (KeyMsg ''esc'') = Some (plainApp, CmdNil) \<and>
   step plainEnv plainApp (KeyMsg ''esc'') = Some plainApp"
proof -
  have h1: "state plainApp = StateRepos"
    by (simp add: plainApp_def New_def)
  have h2: "\<not> list_SettingFilter plainEnv (repoList plainApp)"
    by (simp add: plainApp_def New_def plainEnv_def plain_list0_def)
  show ?thesis using esc_at_root [OF h1 h2] h1 h2 by simp
qed

text \<open>
  C4 (as amended). The test \<open>Update\<close> makes is whether a filter is being typed into
  the current level's list (\<open>SettingFilter\<close>). If so, \<open>esc\<close> is handed to that list:
  the list and the command are what the list's own \<open>Update\<close> returns, no other field
  changes, and no navigation occurs. In every other case below the root, with no filter
  or with a filter that is applied and no longer being typed, \<open>esc\<close> moves one level
  up and clears the selection of the level being left, and nothing else: the lists, and
  a filter applied to one, stay as they are. The detail level has no list and always
  navigates.
\<close>

theorem Back_key:
  "(state a = StateRepos \<and> list_SettingFilter E (repoList a) \<longrightarrow>
      Update E a (KeyMsg ''esc'') =
        Some (a\<lparr>repoList := fst (list_Update E (KeyMsg ''esc'') (repoList a))\<rparr>,
              snd (list_Update E (KeyMsg ''esc'') (repoList a)))) \<and>
   (state a = StatePRs \<and> list_SettingFilter E (prList a) \<longrightarrow>
      Update E a (KeyMsg ''esc'') =
        Some (a\<lparr>prList := fst (list_Update E (KeyMsg ''esc'') (prList a))\<rparr>,
              snd (list_Update E (KeyMsg ''esc'') (prList a)))) \<and>
   (state a = StateComments \<and> list_SettingFilter E (commentList a) \<longrightarrow>
      Update E a (KeyMsg ''esc'') =
        Some (a\<lparr>commentList := fst (list_Update E (KeyMsg ''esc'') (commentList a))\<rparr>,
              snd (list_Update E (KeyMsg ''esc'') (commentList a)))) \<and>
   (state a = StatePRs \<and> \<not> list_SettingFilter E (prList a) \<longrightarrow>
      Update E a (KeyMsg ''esc'') = Some (a\<lparr>state := StateRepos, currentRepo := None\<rparr>, CmdNil)) \<and>
   (state a = StateComments \<and> \<not> list_SettingFilter E (commentList a) \<longrightarrow>
      Update E a (KeyMsg ''esc'') = Some (a\<lparr>state := StatePRs, currentPR := None\<rparr>, CmdNil)) \<and>
   (state a = StateCommentDetail \<longrightarrow>
      Update E a (KeyMsg ''esc'') =
        Some (a\<lparr>state := StateComments, currentComment := None\<rparr>, CmdNil))"
  by (simp add: Update_def handleBack_def split_beta)

theorem Back_key_witness:
  "state filteringApp = StateRepos \<and> list_SettingFilter plainEnv (repoList filteringApp) \<and>
   Update plainEnv filteringApp (KeyMsg ''esc'') =
     Some (filteringApp\<lparr>repoList := plain_list0\<rparr>, CmdNil) \<and>
   state prsApp = StatePRs \<and> \<not> list_SettingFilter plainEnv (prList prsApp) \<and>
   Update plainEnv prsApp (KeyMsg ''esc'') =
     Some (prsApp\<lparr>state := StateRepos, currentRepo := None\<rparr>, CmdNil) \<and>
   state commentsApp = StateComments \<and> \<not> list_SettingFilter plainEnv (commentList commentsApp) \<and>
   Update plainEnv commentsApp (KeyMsg ''esc'') =
     Some (commentsApp\<lparr>state := StatePRs, currentPR := None\<rparr>, CmdNil) \<and>
   state detailApp = StateCommentDetail \<and>
   Update plainEnv detailApp (KeyMsg ''esc'') =
     Some (detailApp\<lparr>state := StateComments, currentComment := None\<rparr>, CmdNil)"
  using Back_key [of filteringApp plainEnv] Back_key [of prsApp plainEnv]
    Back_key [of commentsApp plainEnv] Back_key [of detailApp plainEnv]
  by (simp add: filteringApp_def prsApp_def commentsApp_def detailApp_def plainApp_def New_def
        plainEnv_def plain_list0_def)

text \<open>
  C4 as stated fails for a filter that is applied and no longer being typed. After the
  session \<open>filterSession\<close> the pull-request list has the filter \<open>x\<close> applied; \<open>esc\<close>
  then navigates to the repositories and leaves the list as it is, where the list's
  own \<open>Update\<close> would have cleared the filter.
\<close>

theorem Back_key_applied_filter_counterexample:
  "run filterEnv filterApp filterSession = Some appliedApp \<and>
   state appliedApp = StatePRs \<and>
   fl_filterState (prList appliedApp) = FilterApplied \<and>
   Update filterEnv appliedApp (KeyMsg ''esc'') =
     Some (appliedApp\<lparr>state := StateRepos, currentRepo := None\<rparr>, CmdNil) \<and>
   prList (appliedApp\<lparr>state := StateRepos, currentRepo := None\<rparr>) = appliedList \<and>
   fst (list_Update filterEnv (KeyMsg ''esc'') (prList appliedApp)) =
     appliedList\<lparr>fl_filterState := Unfiltered, fl_filterText := []\<rparr>"
proof -
  note defs = appliedApp_def appliedList_def filterApp_def New_def filterEnv_def
    filter_list0_def filter_list_Update_def
  have session: "run filterEnv filterApp filterSession = Some appliedApp"
    by (simp add: filterSession_def step_def Update_def updateCurrent_def handleEnter_def
          fetchPRs_def View_def Let_def defs)
  have esc: "Update filterEnv appliedApp (KeyMsg ''esc'') =
               Some (appliedApp\<lparr>state := StateRepos, currentRepo := None\<rparr>, CmdNil)"
    by (simp add: Update_def handleBack_def defs)
  have rest: "state appliedApp = StatePRs"
    "fl_filterState (prList appliedApp) = FilterApplied"
    "prList (appliedApp\<lparr>state := StateRepos, currentRepo := None\<rparr>) = appliedList"
    "fst (list_Update filterEnv (KeyMsg ''esc'') (prList appliedApp)) =
       appliedList\<lparr>fl_filterState := Unfiltered, fl_filterText := []\<rparr>"
    by (simp_all add: defs)
  show ?thesis using session esc rest by simp
qed

section \<open>Navigation\<close>

lemma updateCurrent_selection: "same_selection a (fst (updateCurrent E a m))"
  by (simp add: same_selection_def updateCurrent_def split_beta split: State.splits)

lemma View_selection: "same_selection a (snd (View E a))"
  by (simp add: same_selection_def View_def Let_def split: option.splits)

lemma handlers_selection:
  "same_selection a (fst (handleCopyPrompt E a))"
  "same_selection a (fst (handleTogglePromptMode a))"
  "same_selection a (fst (handleToggleReplies a))"
  by (simp_all add: same_selection_def handleCopyPrompt_def handleTogglePromptMode_def
        handleToggleReplies_def Let_def split: option.splits)

lemma same_selection_fields:
  "same_selection a (a'\<lparr>commentViewport := v\<rparr>) = same_selection a a'"
  "same_selection (a\<lparr>commentViewport := v\<rparr>) a' = same_selection a a'"
  "same_selection (a\<lparr>repoList := l\<rparr>) a' = same_selection a a'"
  "same_selection (a\<lparr>prList := l\<rparr>) a' = same_selection a a'"
  "same_selection (a\<lparr>commentList := l\<rparr>) a' = same_selection a a'"
  "same_selection (a\<lparr>loading := b\<rparr>) a' = same_selection a a'"
  "same_selection (a\<lparr>copyStatus := s\<rparr>) a' = same_selection a a'"
  "same_selection (a\<lparr>width := n\<rparr>) a' = same_selection a a'"
  "same_selection (a\<lparr>height := n\<rparr>) a' = same_selection a a'"
  "same_selection a (a'\<lparr>err := e\<rparr>) = same_selection a a'"
  "same_selection a (a'\<lparr>loading := b\<rparr>) = same_selection a a'"
  "same_selection a a"
  by (simp_all add: same_selection_def)

lemma same_selection_navigation:
  assumes "same_selection a a'"
  shows "adjacent (state a) (state a') \<and> (nav_invariant a \<longrightarrow> nav_invariant a')"
  using assms by (simp add: same_selection_def adjacent_def nav_invariant_def)

lemma handleBack_navigation:
  assumes "handleBack a = (a', cmd)"
  shows "adjacent (state a) (state a') \<and> (nav_invariant a \<longrightarrow> nav_invariant a')"
  using assms by (cases "state a") (auto simp: handleBack_def adjacent_def nav_invariant_def)

lemma handleEnter_navigation:
  assumes "handleEnter E a = Some (a', cmd)"
  shows "adjacent (state a) (state a') \<and> (nav_invariant a \<longrightarrow> nav_invariant a')"
proof (cases "state a")
  case StateRepos
  then show ?thesis using assms
    by (auto simp: handleEnter_def adjacent_def nav_invariant_def Let_def
          split: option.splits Item.splits)
next
  case StatePRs
  then show ?thesis using assms
    by (auto simp: handleEnter_def adjacent_def nav_invariant_def Let_def
          split: option.splits Item.splits)
next
  case StateComments
  then show ?thesis using assms
    by (auto simp: handleEnter_def adjacent_def nav_invariant_def Let_def
          split: option.splits Item.splits)
next
  case StateCommentDetail
  then show ?thesis using assms
    by (auto simp: handleEnter_def adjacent_def nav_invariant_def)
qed

lemma Update_other_key:
  assumes "k \<noteq> ''ctrl+c''" "k \<noteq> ''q''" "k \<noteq> ''esc''" "k \<noteq> ''enter''"
  shows "Update E a (KeyMsg k) \<noteq> None \<and> same_selection a (fst (the (Update E a (KeyMsg k))))"
  using assms
  by (simp add: Update_def updateCurrent_selection handlers_selection same_selection_fields)

lemma Update_esc:
  "Update E a (KeyMsg ''esc'') = Some (handleBack a) \<or>
   (Update E a (KeyMsg ''esc'') \<noteq> None \<and>
    same_selection a (fst (the (Update E a (KeyMsg ''esc'')))))"
  by (cases "state a") (simp_all add: Update_def split_beta same_selection_def)

lemma Update_other_msg:
  assumes "\<forall>k. m \<noteq> KeyMsg k"
  shows "Update E a m \<noteq> None \<and> same_selection a (fst (the (Update E a m)))"
proof (cases m)
  case (WindowSizeMsg w h)
  have "same_selection a (fst (updateCurrent E a1 m)) = same_selection a a1" for a1
    using updateCurrent_selection [of a1 E m] by (simp add: same_selection_def)
  then show ?thesis
    using WindowSizeMsg by (simp add: Update_def Let_def) (simp add: same_selection_def)
next
  case (KeyMsg k)
  then show ?thesis using assms by simp
next
  case (ReposMsg xs e)
  have "same_selection a (fst (updateCurrent E a1 m)) = same_selection a a1" for a1
    using updateCurrent_selection [of a1 E m] by (simp add: same_selection_def)
  then show ?thesis
    using ReposMsg
    by (cases e) (simp_all add: Update_def Let_def, simp_all add: same_selection_def)
next
  case (PRsMsg xs e)
  have "same_selection a (fst (updateCurrent E a1 m)) = same_selection a a1" for a1
    using updateCurrent_selection [of a1 E m] by (simp add: same_selection_def)
  then show ?thesis
    using PRsMsg
    by (cases e) (simp_all add: Update_def Let_def, simp_all add: same_selection_def)
next
  case (CommentsMsg xs e)
  have "same_selection a (fst (updateCurrent E a1 m)) = same_selection a a1" for a1
    using updateCurrent_selection [of a1 E m] by (simp add: same_selection_def)
  then show ?thesis
    using CommentsMsg
    by (cases e) (simp_all add: Update_def Let_def, simp_all add: same_selection_def)
next
  case clearCopyStatusMsg
  have "same_selection a (fst (updateCurrent E a1 m)) = same_selection a a1" for a1
    using updateCurrent_selection [of a1 E m] by (simp add: same_selection_def)
  then show ?thesis
    using clearCopyStatusMsg by (simp add: Update_def) (simp add: same_selection_def)
next
  case (OtherMsg x)
  then show ?thesis
    using updateCurrent_selection [of a E m] by (simp add: Update_def)
qed

lemma Update_navigation:
  assumes upd: "Update E a m = Some (a', cmd)"
  shows "adjacent (state a) (state a') \<and> (nav_invariant a \<longrightarrow> nav_invariant a')"
proof (cases "\<exists>k. m = KeyMsg k")
  case False
  then have "same_selection a (fst (the (Update E a m)))"
    using Update_other_msg [of m E a] by blast
  then show ?thesis using upd same_selection_navigation by fastforce
next
  case True
  then obtain k where m: "m = KeyMsg k" by blast
  consider "k = ''ctrl+c'' \<or> k = ''q''" | "k = ''esc''" | "k = ''enter''"
    | "k \<noteq> ''ctrl+c''" "k \<noteq> ''q''" "k \<noteq> ''esc''" "k \<noteq> ''enter''"
    by blast
  then show ?thesis
  proof cases
    case 1
    then have "a' = a" using upd m by (auto simp: Update_def)
    then show ?thesis by (simp add: adjacent_def)
  next
    case 2
    then show ?thesis
      using Update_esc [of E a] upd m handleBack_navigation [of a a' cmd]
        same_selection_navigation [of a a']
      by auto
  next
    case 3
    then have "handleEnter E a = Some (a', cmd)" using upd m by (simp add: Update_def)
    then show ?thesis by (rule handleEnter_navigation)
  next
    case 4
    then have "same_selection a (fst (the (Update E a (KeyMsg k))))"
      using Update_other_key by blast
    then show ?thesis using upd m same_selection_navigation by fastforce
  qed
qed

lemma step_invariant:
  assumes "step E a m = Some a1" and "nav_invariant a"
  shows "nav_invariant a1"
proof -
  obtain a' cmd where upd: "Update E a m = Some (a', cmd)" and a1: "a1 = snd (View E a')"
    using assms(1) by (auto simp: step_def split: option.splits)
  have "nav_invariant a'" using Update_navigation [OF upd] assms(2) by blast
  then show ?thesis
    using View_selection [of a' E] a1 same_selection_navigation by blast
qed

lemma run_invariant:
  "run E a0 ms = Some a \<Longrightarrow> nav_invariant a0 \<Longrightarrow> nav_invariant a"
proof (induction ms arbitrary: a0)
  case Nil
  then show ?case by simp
next
  case (Cons m ms)
  then obtain a1 where s: "step E a0 m = Some a1" and r: "run E a1 ms = Some a"
    by (auto split: option.splits)
  show ?case using Cons.IH [OF r] step_invariant [OF s Cons.prems(2)] by blast
qed

lemma New_invariant: "nav_invariant (New repoList0 prList0 commentList0 viewport0)"
  by (simp add: New_def nav_invariant_def)

text \<open>
  C1. The application starts at the repository level with no selection. In every state
  that the event loop reaches from there (an \<open>Update\<close> and the render after it, for each
  message, as long as the program does not panic), the repository is selected exactly at
  the pull-request level and below, the pull request exactly at the comment level and
  below, and the comment exactly at the detail level; and whatever message \<open>Update\<close>
  handles next, the level it leaves is the same or a neighbouring one, with the
  invariant kept.
\<close>

theorem navigation_adjacent_and_invariant:
  assumes "run E (New repoList0 prList0 commentList0 viewport0) ms = Some a"
  shows "state (New repoList0 prList0 commentList0 viewport0) = StateRepos \<and>
         currentRepo (New repoList0 prList0 commentList0 viewport0) = None \<and>
         currentPR (New repoList0 prList0 commentList0 viewport0) = None \<and>
         currentComment (New repoList0 prList0 commentList0 viewport0) = None \<and>
         nav_invariant a \<and>
         (\<forall>m a' cmd. Update E a m = Some (a', cmd) \<longrightarrow>
            adjacent (state a) (state a') \<and> nav_invariant a')"
proof -
  have inv: "nav_invariant a"
    using run_invariant [OF assms New_invariant] .
  have "adjacent (state a) (state a') \<and> nav_invariant a'"
    if "Update E a m = Some (a', cmd)" for m a' cmd
    using Update_navigation [OF that] inv by blast
  then show ?thesis using inv by (simp add: New_def)
qed

theorem navigation_adjacent_and_invariant_witness:
  "run plainEnv (New plain_list0 plain_list0 plain_list0 ())
     [ReposMsg [repoHello] None, KeyMsg ''enter''] = Some enteredApp \<and>
   nav_invariant enteredApp \<and>
   state enteredApp = StatePRs \<and> currentRepo enteredApp = Some repoHello \<and>
   Update plainEnv enteredApp (KeyMsg ''esc'') =
     Some (enteredApp\<lparr>state := StateRepos, currentRepo := None\<rparr>, CmdNil) \<and>
   adjacent StatePRs StateRepos"
proof -
  have r: "run plainEnv (New plain_list0 plain_list0 plain_list0 ())
             [ReposMsg [repoHello] None, KeyMsg ''enter''] = Some enteredApp"
    by (simp add: step_def Update_def updateCurrent_def handleEnter_def fetchPRs_def View_def
          plainEnv_def New_def plain_list0_def enteredApp_def plainApp_def Let_def)
  have u: "Update plainEnv enteredApp (KeyMsg ''esc'') =
             Some (enteredApp\<lparr>state := StateRepos, currentRepo := None\<rparr>, CmdNil)"
    by (simp add: Update_def handleBack_def plainEnv_def enteredApp_def plainApp_def New_def
          plain_list0_def)
  have inv: "nav_invariant enteredApp"
    using navigation_adjacent_and_invariant [OF r] by blast
  have "adjacent (state enteredApp) (state (enteredApp\<lparr>state := StateRepos, currentRepo := None\<rparr>))"
    using navigation_adjacent_and_invariant [OF r] u by blast
  moreover have st: "state enteredApp = StatePRs" "currentRepo enteredApp = Some repoHello"
    by (simp_all add: enteredApp_def plainApp_def New_def)
  ultimately have "adjacent StatePRs StateRepos" by simp
  then show ?thesis using r u inv st by simp
qed

section \<open>Fetch results\<close>

text \<open>
  C5. A comments result without an error replaces the items of the comment list by the
  incoming comments that pass the filter, computed from the message and the current
  \<open>showReplies\<close> each time: with \<open>showReplies\<close> false the comments whose \<open>InReplyTo\<close> is 0
  or absent, with \<open>showReplies\<close> true all of them. The list is then handed the message,
  as after every event. On five comments, two of them replies, the list gets three items;
  the key \<open>r\<close> turns \<open>showReplies\<close> on and asks for the comments again, and the same
  five comments then give five items.
\<close>

theorem comments_result_filtered:
  "Update E a (CommentsMsg comments None) =
     Some (updateCurrent E
             (a\<lparr>loading := False,
                commentList :=
                  list_SetItems E
                    (map CommentItem
                       (filter (\<lambda>c. showReplies a \<or> GetInt (c_InReplyTo c) = 0) comments))
                    (commentList a)\<rparr>)
             (CommentsMsg comments None)) \<and>
   filteredComments False comments = filter (\<lambda>c. GetInt (c_InReplyTo c) = 0) comments \<and>
   filteredComments True comments = comments \<and>
   Update plainEnv commentsApp (CommentsMsg fiveComments None) =
     Some (commentsApp\<lparr>commentList := plain_list0\<lparr>pl_items :=
             [CommentItem (commentAt (Some 500) ''rename this''),
              CommentItem (commentAt (Some 300) ''add a test''),
              CommentItem (commentAt None ''typo'')]\<rparr>\<rparr>, CmdNil) \<and>
   Update plainEnv commentsApp (KeyMsg ''r'') =
     Some (commentsApp\<lparr>showReplies := True, loading := True\<rparr>,
           FetchCommentsCmd repoHello (prNumbered 7)) \<and>
   Update plainEnv (commentsApp\<lparr>showReplies := True, loading := True\<rparr>)
       (CommentsMsg fiveComments None) =
     Some (commentsApp\<lparr>showReplies := True,
             commentList := plain_list0\<lparr>pl_items := map CommentItem fiveComments\<rparr>\<rparr>, CmdNil) \<and>
   length fiveComments = 5 \<and> length (filter (\<lambda>c. GetInt (c_InReplyTo c) \<noteq> 0) fiveComments) = 2"
proof -
  have general: "Update E a (CommentsMsg comments None) =
     Some (updateCurrent E
             (a\<lparr>loading := False,
                commentList :=
                  list_SetItems E
                    (map CommentItem
                       (filter (\<lambda>c. showReplies a \<or> GetInt (c_InReplyTo c) = 0) comments))
                    (commentList a)\<rparr>)
             (CommentsMsg comments None))"
    by (simp add: Update_def filteredComments_def)
  have filters: "filteredComments False comments = filter (\<lambda>c. GetInt (c_InReplyTo c) = 0) comments"
    "filteredComments True comments = comments"
    by (simp_all add: filteredComments_def)
  have hidden: "Update plainEnv commentsApp (CommentsMsg fiveComments None) =
     Some (commentsApp\<lparr>commentList := plain_list0\<lparr>pl_items :=
             [CommentItem (commentAt (Some 500) ''rename this''),
              CommentItem (commentAt (Some 300) ''add a test''),
              CommentItem (commentAt None ''typo'')]\<rparr>\<rparr>, CmdNil)"
    by (simp add: Update_def updateCurrent_def filteredComments_def fiveComments_def
          commentAt_def replyTo_def nilComment_def GetInt_def plainEnv_def commentsApp_def
          prsApp_def plainApp_def New_def plain_list0_def)
  have toggle: "Update plainEnv commentsApp (KeyMsg ''r'') =
     Some (commentsApp\<lparr>showReplies := True, loading := True\<rparr>,
           FetchCommentsCmd repoHello (prNumbered 7))"
    by (simp add: Update_def handleToggleReplies_def fetchComments_def commentsApp_def
          prsApp_def plainApp_def New_def Let_def)
  have shown: "Update plainEnv (commentsApp\<lparr>showReplies := True, loading := True\<rparr>)
       (CommentsMsg fiveComments None) =
     Some (commentsApp\<lparr>showReplies := True,
             commentList := plain_list0\<lparr>pl_items := map CommentItem fiveComments\<rparr>\<rparr>, CmdNil)"
    by (simp add: Update_def updateCurrent_def filteredComments_def plainEnv_def commentsApp_def
          prsApp_def plainApp_def New_def plain_list0_def)
  have counts: "length fiveComments = 5"
    "length (filter (\<lambda>c. GetInt (c_InReplyTo c) \<noteq> 0) fiveComments) = 2"
    by (simp_all add: fiveComments_def commentAt_def replyTo_def nilComment_def GetInt_def)
  show ?thesis using general filters hidden toggle shown counts by simp
qed

lemma updateCurrent_err: "err (fst (updateCurrent E a m)) = err a"
  by (simp add: updateCurrent_def split_beta split: State.splits)

lemma View_err: "err (snd (View E a)) = err a"
  by (simp add: View_def Let_def split: option.splits)

lemma handlers_err:
  "err (fst (handleCopyPrompt E a)) = err a"
  "err (fst (handleTogglePromptMode a)) = err a"
  "err (fst (handleToggleReplies a)) = err a"
  "err (fst (handleBack a)) = err a"
  by (simp_all add: handleCopyPrompt_def handleTogglePromptMode_def handleToggleReplies_def
        handleBack_def Let_def split: option.splits State.splits)

lemma handleEnter_err:
  assumes "handleEnter E a = Some (a', cmd)"
  shows "err a' = err a"
  using assms
  by (cases "state a")
     (auto simp: handleEnter_def Let_def split: option.splits Item.splits)

lemma Update_other_key_err:
  assumes "k \<noteq> ''ctrl+c''" "k \<noteq> ''q''" "k \<noteq> ''esc''" "k \<noteq> ''enter''"
  shows "Update E a (KeyMsg k) \<noteq> None \<and> err (fst (the (Update E a (KeyMsg k)))) = err a"
  using assms by (simp add: Update_def updateCurrent_err handlers_err)

lemma Update_esc_err:
  "Update E a (KeyMsg ''esc'') \<noteq> None \<and> err (fst (the (Update E a (KeyMsg ''esc'')))) = err a"
  by (cases "state a") (simp_all add: Update_def split_beta handlers_err)

lemma Update_key_err:
  assumes upd: "Update E a (KeyMsg k) = Some (a', cmd)"
  shows "err a' = err a"
proof -
  consider "k = ''ctrl+c'' \<or> k = ''q''" | "k = ''esc''" | "k = ''enter''"
    | "k \<noteq> ''ctrl+c''" "k \<noteq> ''q''" "k \<noteq> ''esc''" "k \<noteq> ''enter''"
    by blast
  then show ?thesis
  proof cases
    case 1
    then show ?thesis using upd by (auto simp: Update_def)
  next
    case 2
    then show ?thesis using Update_esc_err [of E a] upd by simp
  next
    case 3
    then have "handleEnter E a = Some (a', cmd)" using upd by (simp add: Update_def)
    then show ?thesis by (rule handleEnter_err)
  next
    case 4
    then show ?thesis using Update_other_key_err [of k E a] upd by simp
  qed
qed

lemma Update_other_msg_err:
  assumes "\<forall>k. m \<noteq> KeyMsg k"
  shows "Update E a m \<noteq> None \<and>
         (err a \<noteq> None \<longrightarrow> err (fst (the (Update E a m))) \<noteq> None)"
  using assms
  by (cases m) (simp_all add: Update_def Let_def updateCurrent_err split: option.splits)

lemma Update_err_kept:
  assumes upd: "Update E a m = Some (a', cmd)" and "err a \<noteq> None"
  shows "err a' \<noteq> None"
proof (cases "\<exists>k. m = KeyMsg k")
  case True
  then show ?thesis using Update_key_err [of E a _ a' cmd] assms by auto
next
  case False
  then show ?thesis using Update_other_msg_err [of m E a] assms by auto
qed

text \<open>
  C2 (as amended). A fetch result that carries an error sets \<open>loading\<close> to false, stores
  the error and returns no command, so nothing is fetched again by itself; the render
  then is the error text alone, with no list in it. Selecting an item again issues the
  fetch again. But no event clears the stored error: once an error is stored, every
  later state has one, and each render is the loading text or the error text, also
  after a later fetch has succeeded.
\<close>

theorem fetch_error_stored_and_kept:
  "Update E a (ReposMsg repos (Some e)) = Some (a\<lparr>loading := False, err := Some e\<rparr>, CmdNil) \<and>
   Update E a (PRsMsg prs (Some e)) = Some (a\<lparr>loading := False, err := Some e\<rparr>, CmdNil) \<and>
   Update E a (CommentsMsg comments (Some e)) =
     Some (a\<lparr>loading := False, err := Some e\<rparr>, CmdNil) \<and>
   View E (a\<lparr>loading := False, err := Some e\<rparr>) =
     (lipgloss_Render E [Foreground ''9''] (''Error: '' @ e), a\<lparr>loading := False, err := Some e\<rparr>) \<and>
   (state a = StateRepos \<and> list_SelectedItem E (repoList a) = Some (RepoItem r) \<longrightarrow>
      Update E a (KeyMsg ''enter'') =
        Some (a\<lparr>currentRepo := Some r, state := StatePRs, loading := True\<rparr>, FetchPRsCmd r)) \<and>
   (state a = StatePRs \<and> list_SelectedItem E (prList a) = Some (PRItem p) \<and>
    currentRepo a = Some r \<longrightarrow>
      Update E a (KeyMsg ''enter'') =
        Some (a\<lparr>currentPR := Some p, state := StateComments, loading := True\<rparr>,
              FetchCommentsCmd r p)) \<and>
   (err a \<noteq> None \<and> Update E a m = Some (a', cmd) \<longrightarrow> err a' \<noteq> None) \<and>
   (err a \<noteq> None \<longrightarrow>
      err (snd (View E a)) = err a \<and>
      fst (View E a) =
        (if loading a then lipgloss_Render E [Align_Center] ''Loading...''
         else lipgloss_Render E [Foreground ''9''] (''Error: '' @ the (err a))))"
proof -
  have stored:
    "Update E a (ReposMsg repos (Some e)) = Some (a\<lparr>loading := False, err := Some e\<rparr>, CmdNil)"
    "Update E a (PRsMsg prs (Some e)) = Some (a\<lparr>loading := False, err := Some e\<rparr>, CmdNil)"
    "Update E a (CommentsMsg comments (Some e)) =
       Some (a\<lparr>loading := False, err := Some e\<rparr>, CmdNil)"
    by (simp_all add: Update_def)
  have shown: "View E (a\<lparr>loading := False, err := Some e\<rparr>) =
     (lipgloss_Render E [Foreground ''9''] (''Error: '' @ e), a\<lparr>loading := False, err := Some e\<rparr>)"
    by (simp add: View_def)
  have again1: "Update E a (KeyMsg ''enter'') =
        Some (a\<lparr>currentRepo := Some r, state := StatePRs, loading := True\<rparr>, FetchPRsCmd r)"
    if "state a = StateRepos" "list_SelectedItem E (repoList a) = Some (RepoItem r)"
    using that by (simp add: Update_def handleEnter_def fetchPRs_def Let_def)
  have again2: "Update E a (KeyMsg ''enter'') =
        Some (a\<lparr>currentPR := Some p, state := StateComments, loading := True\<rparr>,
              FetchCommentsCmd r p)"
    if "state a = StatePRs" "list_SelectedItem E (prList a) = Some (PRItem p)"
      "currentRepo a = Some r"
    using that by (simp add: Update_def handleEnter_def fetchComments_def Let_def)
  have kept: "err a' \<noteq> None" if "err a \<noteq> None" "Update E a m = Some (a', cmd)"
    using Update_err_kept [OF that(2) that(1)] .
  have render: "fst (View E a) =
        (if loading a then lipgloss_Render E [Align_Center] ''Loading...''
         else lipgloss_Render E [Foreground ''9''] (''Error: '' @ the (err a)))"
    if "err a \<noteq> None"
    using that by (auto simp: View_def)
  show ?thesis
    using stored shown again1 again2 kept render View_err [of E a] by blast
qed

theorem fetch_error_stored_and_kept_witness:
  "state backedOutApp = StateRepos \<and>
   list_SelectedItem plainEnv (repoList backedOutApp) = Some (RepoItem repoHello) \<and>
   err backedOutApp \<noteq> None \<and>
   Update plainEnv backedOutApp (KeyMsg ''enter'') =
     Some (failedApp\<lparr>loading := True\<rparr>, FetchPRsCmd repoHello) \<and>
   err (failedApp\<lparr>loading := True\<rparr>) \<noteq> None \<and>
   fst (View plainEnv backedOutApp) = ''Error: boom'' \<and>
   state recoveredApp = StatePRs \<and>
   list_SelectedItem plainEnv (prList recoveredApp) = Some (PRItem (prNumbered 7)) \<and>
   currentRepo recoveredApp = Some repoHello \<and>
   Update plainEnv recoveredApp (KeyMsg ''enter'') =
     Some (recoveredApp\<lparr>currentPR := Some (prNumbered 7), state := StateComments,
             loading := True\<rparr>, FetchCommentsCmd repoHello (prNumbered 7))"
proof -
  note defs = backedOutApp_def failedApp_def recoveredApp_def enteredApp_def plainApp_def
    New_def plainEnv_def plain_list0_def
  note at_root = fetch_error_stored_and_kept [where E = plainEnv and a = backedOutApp
      and r = repoHello and m = "KeyMsg ''enter''" and a' = "failedApp\<lparr>loading := True\<rparr>"
      and cmd = "FetchPRsCmd repoHello" and e = "''boom''" and repos = "[]" and prs = "[]"
      and comments = "[]" and p = "prNumbered 7"]
  note at_prs = fetch_error_stored_and_kept [where E = plainEnv and a = recoveredApp
      and r = repoHello and m = "KeyMsg ''enter''" and a' = recoveredApp
      and cmd = CmdNil and e = "''boom''" and repos = "[]" and prs = "[]"
      and comments = "[]" and p = "prNumbered 7"]
  have h1: "state backedOutApp = StateRepos"
    and h2: "list_SelectedItem plainEnv (repoList backedOutApp) = Some (RepoItem repoHello)"
    and h3: "err backedOutApp \<noteq> None"
    by (simp_all add: defs)
  have same: "backedOutApp\<lparr>currentRepo := Some repoHello, state := StatePRs, loading := True\<rparr> =
              failedApp\<lparr>loading := True\<rparr>"
    by (simp add: defs)
  have "Update plainEnv backedOutApp (KeyMsg ''enter'') =
          Some (backedOutApp\<lparr>currentRepo := Some repoHello, state := StatePRs, loading := True\<rparr>,
                FetchPRsCmd repoHello)"
    using at_root h1 h2 by blast
  then have enter: "Update plainEnv backedOutApp (KeyMsg ''enter'') =
          Some (failedApp\<lparr>loading := True\<rparr>, FetchPRsCmd repoHello)"
    unfolding same .
  have kept: "err (failedApp\<lparr>loading := True\<rparr>) \<noteq> None"
    using at_root h3 enter by blast
  have "fst (View plainEnv backedOutApp) =
          (if loading backedOutApp then lipgloss_Render plainEnv [Align_Center] ''Loading...''
           else lipgloss_Render plainEnv [Foreground ''9''] (''Error: '' @ the (err backedOutApp)))"
    using at_root h3 by blast
  then have render: "fst (View plainEnv backedOutApp) = ''Error: boom''"
    by (simp add: defs)
  have g1: "state recoveredApp = StatePRs"
    and g2: "list_SelectedItem plainEnv (prList recoveredApp) = Some (PRItem (prNumbered 7))"
    and g3: "currentRepo recoveredApp = Some repoHello"
    by (simp_all add: defs)
  have comments: "Update plainEnv recoveredApp (KeyMsg ''enter'') =
     Some (recoveredApp\<lparr>currentPR := Some (prNumbered 7), state := StateComments,
             loading := True\<rparr>, FetchCommentsCmd repoHello (prNumbered 7))"
    using at_prs g1 g2 g3 by blast
  show ?thesis
    using h1 h2 h3 enter kept render g1 g2 g3 comments by blast
qed

text \<open>
  C2 as stated fails at its last part. A session whose pull-request fetch failed backs
  out, enters the repository again and receives a successful result: the state holds the
  pull request, \<open>loading\<close> is false, and the render is still the error text.
\<close>

theorem fetch_error_recovery_counterexample:
  "run plainEnv plainApp
     [ReposMsg [repoHello] None, KeyMsg ''enter'', PRsMsg [] (Some ''boom''), KeyMsg ''esc'',
      KeyMsg ''enter'', PRsMsg [prNumbered 7] None] = Some recoveredApp \<and>
   pl_items (prList recoveredApp) = [PRItem (prNumbered 7)] \<and>
   \<not> loading recoveredApp \<and>
   fst (View plainEnv recoveredApp) = ''Error: boom''"
  by (simp add: step_def Update_def updateCurrent_def handleEnter_def handleBack_def fetchPRs_def
        View_def Let_def recoveredApp_def enteredApp_def plainApp_def New_def plainEnv_def
        plain_list0_def)

section \<open>Resizing\<close>

text \<open>
  What a resize does at the detail level. \<open>Update\<close> stores the two dimensions, resizes
  the three lists, writes the viewport's width and height and hands the message to the
  viewport. When the render that follows draws the detail view (nothing loading, no
  stored error) it writes the height \<open>max (h - 6) 1\<close>, as \<open>handleEnter\<close> does, and leaves
  the width alone.
\<close>

lemma resize_round_in_detail:
  "(state a = StateCommentDetail \<longrightarrow>
      Update E a (WindowSizeMsg w h) =
        Some (a\<lparr>width := w, height := h,
                repoList := list_SetSize E (w - 4) (h - 4) (repoList a),
                prList := list_SetSize E (w - 4) (h - 4) (prList a),
                commentList := list_SetSize E (w - 4) (h - 7) (commentList a),
                commentViewport :=
                  fst (viewport_Update E (WindowSizeMsg w h)
                         ((commentViewport a)
                            \<lparr>Width := w - 4,
                             Height := (if copyStatus a = [] then h - 5 else h - 7)\<rparr>))\<rparr>,
              snd (viewport_Update E (WindowSizeMsg w h)
                     ((commentViewport a)
                        \<lparr>Width := w - 4,
                         Height := (if copyStatus a = [] then h - 5 else h - 7)\<rparr>)))) \<and>
   (state a = StateCommentDetail \<and> \<not> loading a \<and> err a = None \<and>
    Update E a (WindowSizeMsg w h) = Some (a', cmd) \<longrightarrow>
      Height (commentViewport (snd (View E a'))) = max (h - 6) 1 \<and>
      Width (commentViewport (snd (View E a'))) = Width (commentViewport a') \<and>
      step E a (WindowSizeMsg w h) = Some (snd (View E a')))"
proof -
  let ?vp = "viewport_Update E (WindowSizeMsg w h)
               ((commentViewport a)
                  \<lparr>Width := w - 4, Height := (if copyStatus a = [] then h - 5 else h - 7)\<rparr>)"
  let ?a' = "a\<lparr>width := w, height := h,
                repoList := list_SetSize E (w - 4) (h - 4) (repoList a),
                prList := list_SetSize E (w - 4) (h - 4) (prList a),
                commentList := list_SetSize E (w - 4) (h - 7) (commentList a),
                commentViewport := fst ?vp\<rparr>"
  have upd: "Update E a (WindowSizeMsg w h) = Some (?a', snd ?vp)"
    if "state a = StateCommentDetail"
    using that by (simp add: Update_def updateCurrent_def Let_def split_beta)
  have view: "Height (commentViewport (snd (View E ?a'))) = max (h - 6) 1 \<and>
              Width (commentViewport (snd (View E ?a'))) = Width (commentViewport ?a')"
    if "state a = StateCommentDetail" "\<not> loading a" "err a = None"
    using that by (simp add: View_def Let_def)
  have "Height (commentViewport (snd (View E a'))) = max (h - 6) 1 \<and>
        Width (commentViewport (snd (View E a'))) = Width (commentViewport a') \<and>
        step E a (WindowSizeMsg w h) = Some (snd (View E a'))"
    if "state a = StateCommentDetail" "\<not> loading a" "err a = None"
      "Update E a (WindowSizeMsg w h) = Some (a', cmd)"
  proof -
    have "a' = ?a'" using upd [OF that(1)] that(4) by simp
    then show ?thesis using view [OF that(1,2,3)] that(4) by (simp add: step_def)
  qed
  then show ?thesis using upd by blast
qed

text \<open>
  C3. The claim describes what \<open>handleEnter\<close> and \<open>View\<close> compute, and the program
  departs from it: the resize branch of \<open>Update\<close> writes the height \<open>h - 5\<close>, not
  \<open>max (h - 6) 1\<close>, and the render repairs it only when it draws the detail view. At the
  detail level with a stored error, or while a fetch is pending, the render returns
  before that, so a resize to 80 by 24 leaves the viewport 76 wide and 19 high, where
  the claim says 18. Both states are reached by a session from the start.
\<close>

theorem resize_with_error_or_loading:
  "map_option detail_geometry (run plainEnv plainApp erroredSession) =
     Some (StateCommentDetail, False, Some ''boom'', - 4, 1) \<and>
   map_option detail_geometry (run plainEnv plainApp (erroredSession @ [WindowSizeMsg 80 24])) =
     Some (StateCommentDetail, False, Some ''boom'', 76, 19) \<and>
   map_option detail_geometry (run plainEnv plainApp loadingSession) =
     Some (StateCommentDetail, True, None, - 4, 1) \<and>
   map_option detail_geometry (run plainEnv plainApp (loadingSession @ [WindowSizeMsg 80 24])) =
     Some (StateCommentDetail, True, None, 76, 19) \<and>
   max (24 - 6) 1 = (18 :: int)"
proof -
  note defs = step_def Update_def updateCurrent_def handleEnter_def handleToggleReplies_def
    fetchPRs_def fetchComments_def filteredComments_def buildCommentDetail_def View_def Let_def
    detail_geometry_def plainApp_def New_def plainEnv_def plain_list0_def commentAt_def
    nilComment_def GetInt_def
  have errored:
    "map_option detail_geometry (run plainEnv plainApp erroredSession) =
       Some (StateCommentDetail, False, Some ''boom'', - 4, 1)"
    "map_option detail_geometry (run plainEnv plainApp (erroredSession @ [WindowSizeMsg 80 24])) =
       Some (StateCommentDetail, False, Some ''boom'', 76, 19)"
    by (simp_all add: erroredSession_def defs)
  have pending:
    "map_option detail_geometry (run plainEnv plainApp loadingSession) =
       Some (StateCommentDetail, True, None, - 4, 1)"
    "map_option detail_geometry (run plainEnv plainApp (loadingSession @ [WindowSizeMsg 80 24])) =
       Some (StateCommentDetail, True, None, 76, 19)"
    by (simp_all add: loadingSession_def defs)
  show ?thesis using errored pending by simp
qed

section \<open>Item adapters\<close>

text \<open>
  C8 (as amended). The adapters are functions of the record (and of the time formatter)
  alone, so two calls on the same record give the same text. Every conditional segment
  is absent, with its separator, when its source is: the language and the update date of
  a repository, the indicators of its title, the bracketed flags of a pull request, the
  path and the line ranges of a comment. A repository without description and language
  yields the placeholder \<open>No description\<close>, one separator and the update date.
\<close>

theorem adapter_segments:
  "RepoItem_Description Format r =
     (if GetString (repo_Description r) = [] then ''No description''
      else GetString (repo_Description r)) @
     (if GetString (repo_Language r) = [] then []
      else '' '' @ bullet @ '' '' @ GetString (repo_Language r)) @
     (case repo_UpdatedAt r of
        None \<Rightarrow> []
      | Some t \<Rightarrow> if Format t ''2006-01-02'' = [] then []
                  else '' '' @ bullet @ '' Updated '' @ Format t ''2006-01-02'') \<and>
   RepoItem_Title r =
     (if GetLogin (repo_Owner r) = [] then GetString (repo_Name r)
      else GetLogin (repo_Owner r) @ ''/'' @ GetString (repo_Name r)) @
     (if GetBool (repo_Private r) then '' '' @ glyph_lock else []) @
     (if GetBool (repo_Fork r) then '' '' @ glyph_fork else []) \<and>
   PRItem_Description Format p =
     (if GetBool (pr_Draft p) \<and> GetBool (pr_Merged p) then ''[DRAFT, MERGED] ''
      else if GetBool (pr_Draft p) then ''[DRAFT] ''
      else if GetBool (pr_Merged p) then ''[MERGED] ''
      else []) @
     ''by '' @ GetLogin (pr_User p) @ '' '' @ bullet @ '' Created '' @
     (case pr_CreatedAt p of None \<Rightarrow> [] | Some t \<Rightarrow> Format t ''2006-01-02'') \<and>
   CommentItem_Description Format (c\<lparr>c_UpdatedAt := None\<rparr>) =
     ''by '' @ GetLogin (c_User c) @ '' '' @ bullet @ '' '' @
     (case c_CreatedAt c of None \<Rightarrow> [] | Some t \<Rightarrow> Format t ''2006-01-02 15:04'') @
     CommentItem_fileInfo c \<and>
   CommentItem_fileInfo (c\<lparr>c_Path := None\<rparr>) = [] \<and>
   CommentItem_fileInfo (c\<lparr>c_Line := None, c_OriginalLine := None\<rparr>) =
     (if GetString (c_Path c) = [] then [] else '' '' @ bullet @ '' '' @ GetString (c_Path c)) \<and>
   CommentItem_fileInfo (c\<lparr>c_Line := Some 0, c_OriginalLine := Some 0\<rparr>) =
     (if GetString (c_Path c) = [] then [] else '' '' @ bullet @ '' '' @ GetString (c_Path c)) \<and>
   RepoItem_Description utcFormat (nilRepository\<lparr>repo_UpdatedAt := Some 1704153600\<rparr>) =
     ''No description '' @ bullet @ '' Updated 2024-01-02''"
proof -
  have repo: "RepoItem_Description Format r =
     (if GetString (repo_Description r) = [] then ''No description''
      else GetString (repo_Description r)) @
     (if GetString (repo_Language r) = [] then []
      else '' '' @ bullet @ '' '' @ GetString (repo_Language r)) @
     (case repo_UpdatedAt r of
        None \<Rightarrow> []
      | Some t \<Rightarrow> if Format t ''2006-01-02'' = [] then []
                  else '' '' @ bullet @ '' Updated '' @ Format t ''2006-01-02'')"
    by (simp add: RepoItem_Description_def Let_def split: option.splits)
  have title: "RepoItem_Title r =
     (if GetLogin (repo_Owner r) = [] then GetString (repo_Name r)
      else GetLogin (repo_Owner r) @ ''/'' @ GetString (repo_Name r)) @
     (if GetBool (repo_Private r) then '' '' @ glyph_lock else []) @
     (if GetBool (repo_Fork r) then '' '' @ glyph_fork else [])"
    by (simp add: RepoItem_Title_def Let_def)
  have pr: "PRItem_Description Format p =
     (if GetBool (pr_Draft p) \<and> GetBool (pr_Merged p) then ''[DRAFT, MERGED] ''
      else if GetBool (pr_Draft p) then ''[DRAFT] ''
      else if GetBool (pr_Merged p) then ''[MERGED] ''
      else []) @
     ''by '' @ GetLogin (pr_User p) @ '' '' @ bullet @ '' Created '' @
     (case pr_CreatedAt p of None \<Rightarrow> [] | Some t \<Rightarrow> Format t ''2006-01-02'')"
    by (simp add: PRItem_Description_def Let_def)
  have comment: "CommentItem_Description Format (c\<lparr>c_UpdatedAt := None\<rparr>) =
     ''by '' @ GetLogin (c_User c) @ '' '' @ bullet @ '' '' @
     (case c_CreatedAt c of None \<Rightarrow> [] | Some t \<Rightarrow> Format t ''2006-01-02 15:04'') @
     CommentItem_fileInfo c"
    by (simp add: CommentItem_Description_def CommentItem_fileInfo_def Let_def)
  have nopath: "CommentItem_fileInfo (c\<lparr>c_Path := None\<rparr>) = []"
    by (simp add: CommentItem_fileInfo_def GetString_def)
  have nolines: "CommentItem_fileInfo (c\<lparr>c_Line := None, c_OriginalLine := None\<rparr>) =
     (if GetString (c_Path c) = [] then [] else '' '' @ bullet @ '' '' @ GetString (c_Path c))"
    "CommentItem_fileInfo (c\<lparr>c_Line := Some 0, c_OriginalLine := Some 0\<rparr>) =
     (if GetString (c_Path c) = [] then [] else '' '' @ bullet @ '' '' @ GetString (c_Path c))"
    by (simp_all add: CommentItem_fileInfo_def GetInt_def Let_def)
  have example: "RepoItem_Description utcFormat (nilRepository\<lparr>repo_UpdatedAt := Some 1704153600\<rparr>) =
     ''No description '' @ bullet @ '' Updated 2024-01-02''"
    by code_simp
  show ?thesis
    using repo title pr comment nopath nolines example by (simp only: simp_thms)
qed

text \<open>
  C8 as stated fails in its example: the description of a repository without description
  and language is not the update date alone, it starts with the placeholder and a
  separator.
\<close>

theorem adapter_placeholder_counterexample:
  "GetString (repo_Description (nilRepository\<lparr>repo_UpdatedAt := Some 1704153600\<rparr>)) = [] \<and>
   GetString (repo_Language (nilRepository\<lparr>repo_UpdatedAt := Some 1704153600\<rparr>)) = [] \<and>
   RepoItem_Description utcFormat (nilRepository\<lparr>repo_UpdatedAt := Some 1704153600\<rparr>) =
     ''No description '' @ bullet @ '' Updated 2024-01-02'' \<and>
   RepoItem_Description utcFormat (nilRepository\<lparr>repo_UpdatedAt := Some 1704153600\<rparr>) \<noteq>
     ''Updated 2024-01-02''"
  by code_simp

text \<open>
  C9. After the path, the description of a comment carries the current range when the
  comment has a line, and the original range, in brackets after \<open>orig\<close>, when it has an
  original line that differs from the line; both ranges follow the rule of
  \<open>spec_line_range\<close>, and so do the two ranges of the prompt data. The three scenarios
  give \<open>L12\<close>, \<open>L15-20\<close> and \<open>L20 (orig L8-10)\<close>.
\<close>

theorem line_range_suffix:
  "CommentItem_fileInfo c =
     (if GetString (c_Path c) = [] then []
      else '' '' @ bullet @ '' '' @ GetString (c_Path c) @
           (if GetInt (c_Line c) = 0 then []
            else '' '' @ spec_line_range (GetInt (c_StartLine c)) (GetInt (c_Line c))) @
           (if GetInt (c_OriginalLine c) = 0 \<or> GetInt (c_OriginalLine c) = GetInt (c_Line c)
            then []
            else '' (orig '' @
                 spec_line_range (GetInt (c_OriginalStartLine c)) (GetInt (c_OriginalLine c)) @
                 '')'')) \<and>
   (\<exists>by_and_time. CommentItem_Description Format c = by_and_time @ CommentItem_fileInfo c) \<and>
   LineRange c =
     (if GetInt (c_Line c) = 0 then []
      else spec_line_range (GetInt (c_StartLine c)) (GetInt (c_Line c))) \<and>
   OriginalLineRange c =
     (if GetInt (c_OriginalLine c) = 0 \<or> GetInt (c_OriginalLine c) = GetInt (c_Line c) then []
      else spec_line_range (GetInt (c_OriginalStartLine c)) (GetInt (c_OriginalLine c))) \<and>
   CommentItem_fileInfo (commentOnLines (Some 12) (Some 12) (Some 12) None) =
     '' '' @ bullet @ '' main.go L12'' \<and>
   CommentItem_fileInfo (commentOnLines (Some 20) (Some 15) None None) =
     '' '' @ bullet @ '' main.go L15-20'' \<and>
   CommentItem_fileInfo (commentOnLines (Some 20) (Some 20) (Some 10) (Some 8)) =
     '' '' @ bullet @ '' main.go L20 (orig L8-10)''"
proof -
  have info: "CommentItem_fileInfo c =
     (if GetString (c_Path c) = [] then []
      else '' '' @ bullet @ '' '' @ GetString (c_Path c) @
           (if GetInt (c_Line c) = 0 then []
            else '' '' @ spec_line_range (GetInt (c_StartLine c)) (GetInt (c_Line c))) @
           (if GetInt (c_OriginalLine c) = 0 \<or> GetInt (c_OriginalLine c) = GetInt (c_Line c)
            then []
            else '' (orig '' @
                 spec_line_range (GetInt (c_OriginalStartLine c)) (GetInt (c_OriginalLine c)) @
                 '')''))"
    by (simp add: CommentItem_fileInfo_def spec_line_range_def Let_def)
  let ?created = "case c_CreatedAt c of None \<Rightarrow> [] | Some t \<Rightarrow> Format t ''2006-01-02 15:04''"
  let ?timeInfo = "case (c_UpdatedAt c, c_CreatedAt c) of
                     (Some u, Some x) \<Rightarrow>
                       (if Format u ''2006-01-02 15:04'' \<noteq> ?created
                        then ?created @ '' (updated '' @ Format u ''2006-01-02 15:04'' @ '')''
                        else ?created)
                   | _ \<Rightarrow> ?created"
  have "CommentItem_Description Format c =
          (''by '' @ GetLogin (c_User c) @ '' '' @ bullet @ '' '' @ ?timeInfo) @
          CommentItem_fileInfo c"
    by (simp add: CommentItem_Description_def Let_def split: option.splits)
  then have descr:
    "\<exists>by_and_time. CommentItem_Description Format c = by_and_time @ CommentItem_fileInfo c"
    by (rule exI)
  have prompt: "LineRange c =
     (if GetInt (c_Line c) = 0 then []
      else spec_line_range (GetInt (c_StartLine c)) (GetInt (c_Line c)))"
    "OriginalLineRange c =
     (if GetInt (c_OriginalLine c) = 0 \<or> GetInt (c_OriginalLine c) = GetInt (c_Line c) then []
      else spec_line_range (GetInt (c_OriginalStartLine c)) (GetInt (c_OriginalLine c)))"
    by (simp_all add: LineRange_def OriginalLineRange_def spec_line_range_def Let_def)
  have scenarios:
    "CommentItem_fileInfo (commentOnLines (Some 12) (Some 12) (Some 12) None) =
       '' '' @ bullet @ '' main.go L12''"
    "CommentItem_fileInfo (commentOnLines (Some 20) (Some 15) None None) =
       '' '' @ bullet @ '' main.go L15-20''"
    "CommentItem_fileInfo (commentOnLines (Some 20) (Some 20) (Some 10) (Some 8)) =
       '' '' @ bullet @ '' main.go L20 (orig L8-10)''"
    by (simp_all add: CommentItem_fileInfo_def commentOnLines_def nilComment_def GetString_def
          GetInt_def itoa_def digits.simps Let_def)
  show ?thesis
    using info descr prompt scenarios by (simp only: simp_thms)
qed

end
